theory Spec2Isabelle
  imports Main "HOL-Library.Sublist"
begin

chapter \<open>The model\<close>

section \<open>Strings and the library functions the exporter calls\<close>

text \<open>
  Go strings are byte sequences; they are modelled as \<open>string\<close> (a \<open>char list\<close>).
  A catalog row is a Go \<open>map[string]string\<close>: reading a missing key yields the
  empty string.
\<close>

type_synonym row = "string \<rightharpoonup> string"

definition rowGet :: "row \<Rightarrow> string \<Rightarrow> string" where
  "rowGet m k = (case m k of None \<Rightarrow> [] | Some v \<Rightarrow> v)"

text \<open>
  \<open>strings.ToUpper\<close> on the ASCII range: the letters a..z are mapped to A..Z and every
  other byte is kept. (Oracle's catalog reports data types in ASCII.)
\<close>

definition upperTable :: "(char \<times> char) list" where
  "upperTable = zip ''abcdefghijklmnopqrstuvwxyz'' ''ABCDEFGHIJKLMNOPQRSTUVWXYZ''"

definition upperChar :: "char \<Rightarrow> char" where
  "upperChar c = (case map_of upperTable c of None \<Rightarrow> c | Some u \<Rightarrow> u)"

definition ToUpper :: "string \<Rightarrow> string" where
  "ToUpper s = map upperChar s"

text \<open>\<open>strings.Contains s sub\<close>: \<open>sub\<close> occurs in \<open>s\<close> as a contiguous run of bytes.\<close>

fun Contains :: "string \<Rightarrow> string \<Rightarrow> bool" where
  "Contains [] sub = (sub = [])"
| "Contains (c # cs) sub = (take (length sub) (c # cs) = sub \<or> Contains cs sub)"

text \<open>\<open>strings.Join elems sep\<close>.\<close>

fun Join :: "string list \<Rightarrow> string \<Rightarrow> string" where
  "Join [] sep = []"
| "Join [x] sep = x"
| "Join (x # y # ys) sep = x @ sep @ Join (y # ys) sep"

text \<open>
  \<open>strconv.Atoi\<close> on a 64-bit platform: an optional sign, then one or more decimal
  digits and nothing else; a value outside the range of \<open>int\<close> is an error too.
  \<open>None\<close> stands for the non-nil error.
\<close>

definition isDigit :: "char \<Rightarrow> bool" where
  "isDigit c = (c \<in> set ''0123456789'')"

fun digitsVal :: "int \<Rightarrow> string \<Rightarrow> int" where
  "digitsVal n [] = n"
| "digitsVal n (c # cs) = digitsVal (n * 10 + (of_char c - 48)) cs"

definition Atoi :: "string \<Rightarrow> int option" where
  "Atoi s =
     (let neg = (s \<noteq> [] \<and> hd s = CHR ''-'');
          ds = (if s \<noteq> [] \<and> (hd s = CHR ''-'' \<or> hd s = CHR ''+'') then tl s else s)
      in if ds = [] \<or> \<not> list_all isDigit ds then None
         else let n = digitsVal 0 ds
              in if neg then (if n > 2 ^ 63 then None else Some (- n))
                 else (if n \<ge> 2 ^ 63 then None else Some n))"

text \<open>
  Modelled from the spec: \<open>common.StringsBuilder\<close> (package \<open>common\<close> is not part of the
  sources at hand) concatenates its arguments in order; the spec's wrappers
  \<open>TO_CHAR(<col>,'...') AS <col>\<close> are built with it.
\<close>

definition StringsBuilder :: "string list \<Rightarrow> string" where
  "StringsBuilder parts = concat parts"

section \<open>Errors\<close>

text \<open>
  Every error value the exporter can return, as a datatype. \<open>Wrapped\<close> is
  \<open>fmt.Errorf("...: %v", err)\<close> around another error. \<open>NilDereference\<close> is not a
  returned error but the run-time panic of a method call through a nil pointer.
\<close>

datatype error =
    AtoiFailed string
  | SourceError string
  | MetaError
  | WriterError string
  | CursorCloseError string
  | OutputDirEmpty
  | VersionTooOld string
  | PriorFailure
  | ChunkInconsistent
  | Wrapped string error
  | NilDereference

fun errorText :: "error \<Rightarrow> string" where
  "errorText (AtoiFailed s) = ''aujust oracle timestamp datatype scale ['' @ s @ ''] strconv.Atoi failed''"
| "errorText (SourceError s) = s"
| "errorText MetaError = ''meta database error''"
| "errorText (WriterError s) = s"
| "errorText (CursorCloseError s) = s"
| "errorText OutputDirEmpty = ''csv config paramter output-dir can't be null, please configure''"
| "errorText (VersionTooOld v) = ''oracle db version ['' @ v @ ''] is less than 11g, can't be using transferdb tools''"
| "errorText PriorFailure = ''meta table [wait_sync_meta] exist failed error''"
| "errorText ChunkInconsistent = ''checkpoint isn't consistent, can't be resume, please reruning [enable-checkpoint = fase]''"
| "errorText (Wrapped s e) = s @ errorText e"
| "errorText NilDereference = ''invalid memory address or nil pointer dereference''"

text \<open>An error that comes from the metadata store, directly or wrapped.\<close>

fun fromMetaStore :: "error \<Rightarrow> bool" where
  "fromMetaStore MetaError = True"
| "fromMetaStore (Wrapped s e) = fromMetaStore e"
| "fromMetaStore _ = False"

section \<open>The projection compiler: \<open>adjustTableSelectColumn\<close>\<close>

definition numericTypes :: "string list" where
  "numericTypes = [''DECIMAL'', ''DEC'', ''DOUBLE PRECISION'', ''FLOAT'', ''INTEGER'', ''INT'',
     ''REAL'', ''NUMERIC'', ''BINARY_FLOAT'', ''BINARY_DOUBLE'', ''SMALLINT'']"

definition characterTypes :: "string list" where
  "characterTypes = [''BFILE'', ''CHARACTER'', ''LONG'', ''NCHAR VARYING'', ''ROWID'', ''UROWID'',
     ''VARCHAR'', ''CHAR'', ''NCHAR'', ''NVARCHAR2'', ''NCLOB'', ''CLOB'']"

definition binaryTypes :: "string list" where
  "binaryTypes = [''BLOB'', ''LONG RAW'', ''RAW'']"

text \<open>
  The body of the loop over the catalog: the expression appended to \<open>columnNames\<close> for
  one row, or the error the function returns at once. The \<open>switch\<close> compares the
  upper-cased data type; the \<open>default\<close> branch searches the data type as stored.
\<close>

definition columnExpr :: "row \<Rightarrow> error + string" where
  "columnExpr rowCol =
     (let ty = ToUpper (rowGet rowCol ''DATA_TYPE''); col = rowGet rowCol ''COLUMN_NAME'' in
      if ty = ''NUMBER'' then Inr col
      else if ty \<in> set numericTypes then Inr col
      else if ty \<in> set characterTypes then Inr col
      else if ty = ''XMLTYPE'' then
        Inr ('' XMLSERIALIZE(CONTENT '' @ col @ '' AS CLOB) AS '' @ col)
      else if ty \<in> set binaryTypes then Inr col
      else if ty = ''DATE'' then
        Inr (StringsBuilder [''TO_CHAR('', col, '','yyyy-MM-dd HH24:mi:ss') AS '', col])
      else if Contains (rowGet rowCol ''DATA_TYPE'') ''INTERVAL'' then
        Inr (StringsBuilder [''TO_CHAR('', col, '') AS '', col])
      else if Contains (rowGet rowCol ''DATA_TYPE'') ''TIMESTAMP'' then
        (case Atoi (rowGet rowCol ''DATA_SCALE'') of
           None \<Rightarrow> Inl (AtoiFailed (rowGet rowCol ''DATA_SCALE''))
         | Some dataScale \<Rightarrow>
             if dataScale = 0 then
               Inr (StringsBuilder [''TO_CHAR('', col, '','yyyy-mm-dd hh24:mi:ss') AS '', col])
             else if dataScale < 0 \<and> dataScale \<le> 6 then
               Inr (StringsBuilder [''TO_CHAR('', col, '','yyyy-mm-dd hh24:mi:ss.ff'',
                      rowGet rowCol ''DATA_SCALE'', CHR 0x27 # '') AS '', col])
             else
               Inr (StringsBuilder [''TO_CHAR('', col, '','yyyy-mm-dd hh24:mi:ss.ff6') AS '', col]))
      else Inr col)"

fun selectColumns :: "row list \<Rightarrow> string list \<Rightarrow> error + string list" where
  "selectColumns [] columnNames = Inr columnNames"
| "selectColumns (rowCol # rest) columnNames =
     (case columnExpr rowCol of
        Inl e \<Rightarrow> Inl e
      | Inr x \<Rightarrow> selectColumns rest (columnNames @ [x]))"

text \<open>
  \<open>compileProjection\<close> is \<open>adjustTableSelectColumn\<close> after its catalog query has
  returned \<open>columnsINFO\<close>.
\<close>

definition compileProjection :: "row list \<Rightarrow> error + string" where
  "compileProjection columnsINFO =
     (case selectColumns columnsINFO [] of
        Inl e \<Rightarrow> Inl e
      | Inr columnNames \<Rightarrow> Inr (Join columnNames '',''))"

section \<open>Helpers of package \<open>common\<close> and of the Go library\<close>

text \<open>
  Modelled from the spec: \<open>common.StringUPPER\<close>, \<open>common.IsContainString\<close> and
  \<open>common.FilterDifferenceStringItems\<close> (package \<open>common\<close> is not part of the sources
  at hand). Identifiers are canonicalised to upper case; the other two are membership
  in a list and the items of the first list that the second lacks.
\<close>

definition StringUPPER :: "string \<Rightarrow> string" where
  "StringUPPER s = ToUpper s"

definition IsContainString :: "string list \<Rightarrow> string \<Rightarrow> bool" where
  "IsContainString items item = (item \<in> set items)"

definition FilterDifferenceStringItems :: "string list \<Rightarrow> string list \<Rightarrow> string list" where
  "FilterDifferenceStringItems originItems excludeItems =
     filter (\<lambda>x. x \<notin> set excludeItems) originItems"

text \<open>\<open>strconv.Itoa\<close>: the decimal digits of an integer, with a minus sign when negative.\<close>

definition digitChar :: "nat \<Rightarrow> char" where
  "digitChar d = ''0123456789'' ! d"

fun natDigits :: "nat \<Rightarrow> string" where
  "natDigits n = (if n < 10 then [digitChar n] else natDigits (n div 10) @ [digitChar (n mod 10)])"

declare natDigits.simps [simp del]

definition Itoa :: "int \<Rightarrow> string" where
  "Itoa i = (if i < 0 then CHR ''-'' # natDigits (nat (- i)) else natDigits (nat i))"

section \<open>The metadata store\<close>

text \<open>
  Modelled from the spec: package \<open>meta\<close> (the metadata store gateway, with its row
  types \<open>WaitSyncMeta\<close> = TableProgress and \<open>FullSyncMeta\<close> = ChunkProgress) is not
  part of the sources at hand. The rows carry the fields the exporter reads and
  writes; the operations follow the spec's data model and gateway contract: keys are
  (source db, target db, source schema, source table, task mode), schema and table
  identifiers of a key are upper-cased before use and on write, and a compound
  operation is one all-or-nothing step.
\<close>

datatype task_status = WAITING | RUNNING | SUCCESS | FAILED

record WaitSyncMeta =
  wDBTypeS :: string
  wDBTypeT :: string
  wSchemaNameS :: string
  wTableNameS :: string
  wTaskMode :: string
  wTaskStatus :: task_status
  wGlobalScnS :: nat
  wChunkTotalNums :: int
  wChunkSuccessNums :: int
  wChunkFailedNums :: int
  wIsPartition :: string

record FullSyncMeta =
  fDBTypeS :: string
  fDBTypeT :: string
  fSchemaNameS :: string
  fTableNameS :: string
  fSchemaNameT :: string
  fTableNameT :: string
  fGlobalScnS :: nat
  fColumnDetailS :: string
  fChunkDetailS :: string
  fTaskMode :: string
  fTaskStatus :: task_status
  fIsPartition :: string
  fCSVFile :: string
  fInfoDetail :: string
  fErrorDetail :: string

text \<open>
  The key fields a caller fills in of the row it passes to the gateway. A table name
  left empty (Go's zero value) is a key of the whole schema.
\<close>

record meta_key =
  kDBTypeS :: string
  kDBTypeT :: string
  kSchemaNameS :: string
  kTableNameS :: string
  kTaskMode :: string

record meta_db =
  wait_sync_meta :: "WaitSyncMeta list"
  full_sync_meta :: "FullSyncMeta list"
  table_name_rule :: "(string \<times> string) list"

definition schemaMatchW :: "meta_key \<Rightarrow> WaitSyncMeta \<Rightarrow> bool" where
  "schemaMatchW k r =
     (wDBTypeS r = kDBTypeS k \<and> wDBTypeT r = kDBTypeT k \<and>
      wSchemaNameS r = StringUPPER (kSchemaNameS k) \<and> wTaskMode r = kTaskMode k)"

definition tableMatchW :: "meta_key \<Rightarrow> WaitSyncMeta \<Rightarrow> bool" where
  "tableMatchW k r = (schemaMatchW k r \<and> wTableNameS r = StringUPPER (kTableNameS k))"

definition schemaMatchF :: "meta_key \<Rightarrow> FullSyncMeta \<Rightarrow> bool" where
  "schemaMatchF k r =
     (fDBTypeS r = kDBTypeS k \<and> fDBTypeT r = kDBTypeT k \<and>
      fSchemaNameS r = StringUPPER (kSchemaNameS k) \<and> fTaskMode r = kTaskMode k)"

definition tableMatchF :: "meta_key \<Rightarrow> FullSyncMeta \<Rightarrow> bool" where
  "tableMatchF k r = (schemaMatchF k r \<and> fTableNameS r = StringUPPER (kTableNameS k))"

definition canonW :: "WaitSyncMeta \<Rightarrow> WaitSyncMeta" where
  "canonW r = r\<lparr>wSchemaNameS := StringUPPER (wSchemaNameS r), wTableNameS := StringUPPER (wTableNameS r)\<rparr>"

definition canonF :: "FullSyncMeta \<Rightarrow> FullSyncMeta" where
  "canonF r = r\<lparr>fSchemaNameS := StringUPPER (fSchemaNameS r), fTableNameS := StringUPPER (fTableNameS r)\<rparr>"

subsection \<open>Operations on TableProgress rows\<close>

text \<open>
  Modelled from the spec: the single-row operations of the gateway on
  \<open>wait_sync_meta\<close> (package \<open>meta\<close>, not part of the sources at hand). A query returns
  the rows under the given key, of the given status when one is asked for; an update
  changes the rows of the given table; a count counts them.
\<close>

definition DetailWaitSyncMeta :: "meta_key \<Rightarrow> task_status option \<Rightarrow> meta_db \<Rightarrow> WaitSyncMeta list" where
  "DetailWaitSyncMeta k st db =
     filter (\<lambda>r. (if kTableNameS k = [] then schemaMatchW k r else tableMatchW k r) \<and>
                 (case st of None \<Rightarrow> True | Some s \<Rightarrow> wTaskStatus r = s))
       (wait_sync_meta db)"

definition CreateWaitSyncMeta :: "WaitSyncMeta \<Rightarrow> meta_db \<Rightarrow> meta_db" where
  "CreateWaitSyncMeta r db = db\<lparr>wait_sync_meta := wait_sync_meta db @ [canonW r]\<rparr>"

text \<open>
  Modelled from the spec: \<open>DeleteWaitSyncMeta\<close> (package \<open>meta\<close>, not part of the sources at
  hand) is the deletion of the spec's reset step, "delete every WAITING TableProgress
  row for every configured table", for one table.
\<close>

definition DeleteWaitSyncMeta :: "meta_key \<Rightarrow> meta_db \<Rightarrow> meta_db" where
  "DeleteWaitSyncMeta k db =
     db\<lparr>wait_sync_meta :=
          filter (\<lambda>r. \<not> (tableMatchW k r \<and> wTaskStatus r = WAITING)) (wait_sync_meta db)\<rparr>"

definition UpdateWaitSyncMeta :: "meta_key \<Rightarrow> (WaitSyncMeta \<Rightarrow> WaitSyncMeta) \<Rightarrow> meta_db \<Rightarrow> meta_db" where
  "UpdateWaitSyncMeta k upd db =
     db\<lparr>wait_sync_meta := map (\<lambda>r. if tableMatchW k r then upd r else r) (wait_sync_meta db)\<rparr>"

definition DetailWaitSyncMetaSuccessTables :: "meta_key \<Rightarrow> meta_db \<Rightarrow> string list" where
  "DetailWaitSyncMetaSuccessTables k db =
     map wTableNameS (filter (\<lambda>r. schemaMatchW k r \<and> wTaskStatus r = SUCCESS) (wait_sync_meta db))"

definition DeleteWaitSyncMetaSuccessTables :: "meta_key \<Rightarrow> string list \<Rightarrow> meta_db \<Rightarrow> meta_db" where
  "DeleteWaitSyncMetaSuccessTables k tables db =
     db\<lparr>wait_sync_meta :=
          filter (\<lambda>r. \<not> (schemaMatchW k r \<and> wTaskStatus r = SUCCESS \<and> wTableNameS r \<in> set tables))
            (wait_sync_meta db)\<rparr>"

definition CountsErrWaitSyncMetaBySchema :: "meta_key \<Rightarrow> task_status \<Rightarrow> meta_db \<Rightarrow> int" where
  "CountsErrWaitSyncMetaBySchema k st db =
     int (length (filter (\<lambda>r. schemaMatchW k r \<and> wTaskStatus r = st) (wait_sync_meta db)))"

definition QueryWaitSyncMetaByPartTask :: "meta_key \<Rightarrow> task_status \<Rightarrow> meta_db \<Rightarrow> WaitSyncMeta list" where
  "QueryWaitSyncMetaByPartTask k st db =
     filter (\<lambda>r. schemaMatchW k r \<and> wTaskStatus r = st) (wait_sync_meta db)"

subsection \<open>Operations on ChunkProgress rows\<close>

text \<open>
  Modelled from the spec: \<open>DeleteFullSyncMetaBySchemaSyncMode\<close> (package \<open>meta\<close>, not part
  of the sources at hand) is the other deletion of the reset step, "delete every
  ChunkProgress row for this run's key"; the key is the one the caller passes.
\<close>

definition DeleteFullSyncMetaBySchemaSyncMode :: "meta_key \<Rightarrow> meta_db \<Rightarrow> meta_db" where
  "DeleteFullSyncMetaBySchemaSyncMode k db =
     db\<lparr>full_sync_meta := filter (\<lambda>r. \<not> schemaMatchF k r) (full_sync_meta db)\<rparr>"

text \<open>
  Modelled from the spec: the single-row operations of the gateway on
  \<open>full_sync_meta\<close> (package \<open>meta\<close>, not part of the sources at hand): the number of
  chunk rows of a table, its chunk rows of a given status and their number, and the
  update of the chunk row with a given predicate.
\<close>

definition CountsFullSyncMetaByTaskTable :: "meta_key \<Rightarrow> meta_db \<Rightarrow> int" where
  "CountsFullSyncMetaByTaskTable k db = int (length (filter (tableMatchF k) (full_sync_meta db)))"

definition DetailFullSyncMeta :: "meta_key \<Rightarrow> task_status \<Rightarrow> meta_db \<Rightarrow> FullSyncMeta list" where
  "DetailFullSyncMeta k st db =
     filter (\<lambda>r. tableMatchF k r \<and> fTaskStatus r = st) (full_sync_meta db)"

definition CountsErrorFullSyncMeta :: "meta_key \<Rightarrow> task_status \<Rightarrow> meta_db \<Rightarrow> int" where
  "CountsErrorFullSyncMeta k st db =
     int (length (filter (\<lambda>r. tableMatchF k r \<and> fTaskStatus r = st) (full_sync_meta db)))"

definition UpdateFullSyncMetaChunk ::
    "meta_key \<Rightarrow> string \<Rightarrow> (FullSyncMeta \<Rightarrow> FullSyncMeta) \<Rightarrow> meta_db \<Rightarrow> meta_db" where
  "UpdateFullSyncMetaChunk k chunk upd db =
     db\<lparr>full_sync_meta :=
          map (\<lambda>r. if tableMatchF k r \<and> fChunkDetailS r = chunk then upd r else r) (full_sync_meta db)\<rparr>"

subsection \<open>The compound operations\<close>

text \<open>
  Modelled from the spec: \<open>DeleteTableFullSyncMetaAndUpdateWaitSyncMeta\<close> (package \<open>meta\<close>,
  not part of the sources at hand) is the executor's compound operation
  "DeleteSuccessChunks + UpdateTableProgress": delete the SUCCESS chunk rows of the
  table and set the table row's status and counters, as one step.
\<close>

definition DeleteTableFullSyncMetaAndUpdateWaitSyncMeta ::
    "meta_key \<Rightarrow> task_status \<Rightarrow> int \<Rightarrow> int \<Rightarrow> meta_db \<Rightarrow> meta_db" where
  "DeleteTableFullSyncMetaAndUpdateWaitSyncMeta k st chunkSuccessNums chunkFailedNums db =
     db\<lparr>full_sync_meta :=
          filter (\<lambda>r. \<not> (tableMatchF k r \<and> fTaskStatus r = SUCCESS)) (full_sync_meta db),
        wait_sync_meta :=
          map (\<lambda>r. if tableMatchW k r
                    then r\<lparr>wTaskStatus := st, wChunkSuccessNums := chunkSuccessNums,
                           wChunkFailedNums := chunkFailedNums\<rparr>
                    else r) (wait_sync_meta db)\<rparr>"

text \<open>
  Modelled from the spec: \<open>BatchCreateFullSyncMetaAndUpdateWaitSyncMeta\<close> and
  \<open>CreateFullSyncMetaAndUpdateWaitSyncMeta\<close> (package \<open>meta\<close>, not part of the sources at
  hand) are the planner's compound operation "CreateChunks + UpsertTableProgress":
  insert the chunk rows and set the parent row to WAITING with the snapshot, the chunk
  total, the counters and the partition flag the caller passes, as one step.
  \<open>insertBatchSize\<close> only sizes the batches of the insert.
\<close>

definition BatchCreateFullSyncMetaAndUpdateWaitSyncMeta ::
    "FullSyncMeta list \<Rightarrow> int \<Rightarrow> meta_key \<Rightarrow> nat \<Rightarrow> int \<Rightarrow> int \<Rightarrow> int \<Rightarrow> string \<Rightarrow> meta_db \<Rightarrow> meta_db" where
  "BatchCreateFullSyncMetaAndUpdateWaitSyncMeta fullMetas insertBatchSize k scn chunkTotalNums chunkSuccessNums chunkFailedNums isPartition db =
     db\<lparr>full_sync_meta := full_sync_meta db @ map canonF fullMetas,
        wait_sync_meta :=
          map (\<lambda>r. if tableMatchW k r
                    then r\<lparr>wTaskStatus := WAITING, wGlobalScnS := scn, wChunkTotalNums := chunkTotalNums,
                           wChunkSuccessNums := chunkSuccessNums, wChunkFailedNums := chunkFailedNums,
                           wIsPartition := isPartition\<rparr>
                    else r) (wait_sync_meta db)\<rparr>"

definition CreateFullSyncMetaAndUpdateWaitSyncMeta ::
    "FullSyncMeta \<Rightarrow> meta_key \<Rightarrow> nat \<Rightarrow> int \<Rightarrow> int \<Rightarrow> int \<Rightarrow> string \<Rightarrow> meta_db \<Rightarrow> meta_db" where
  "CreateFullSyncMetaAndUpdateWaitSyncMeta fullMeta k scn chunkTotalNums chunkSuccessNums chunkFailedNums isPartition db =
     BatchCreateFullSyncMetaAndUpdateWaitSyncMeta [fullMeta] 1 k scn chunkTotalNums chunkSuccessNums chunkFailedNums isPartition db"

text \<open>
  Modelled from the spec: \<open>DetailTableNameRule\<close> (package \<open>meta\<close>, not part of the sources
  at hand) returns the table-name rules of the run as pairs of source and target name.
\<close>

definition DetailTableNameRule :: "meta_db \<Rightarrow> (string \<times> string) list" where
  "DetailTableNameRule db = table_name_rule db"

section \<open>Configuration, source database and world state\<close>

text \<open>
  The configuration fields the exporter reads. The last two stand for the constants
  \<open>common.TaskTableDefaultSourceGlobalSCN\<close> and \<open>common.TaskTableDefaultSplitChunkNums\<close>,
  whose declarations are not part of the sources at hand.
\<close>

record config =
  cfgDBTypeS :: string
  cfgDBTypeT :: string
  cfgTaskMode :: string
  cfgOracleSchemaName :: string
  cfgMySQLSchemaName :: string
  cfgEnableCheckpoint :: bool
  cfgOutputDir :: string
  cfgRows :: int
  cfgInsertBatchSize :: int
  TaskTableDefaultSourceGlobalSCN :: nat
  TaskTableDefaultSplitChunkNums :: int

text \<open>
  The cursor a successful \<open>QueryContext\<close> returns, a \<open>*sql.Rows\<close> of \<open>database/sql\<close>.
  Its \<open>Columns\<close> method fails only when the rows are already closed, and \<open>Close\<close> on
  closed rows returns nil. So a cursor is either open, with its column names and the
  result its \<open>Close\<close> will give, or closed, with the error \<open>Columns\<close> reports.
\<close>

datatype cursor = OpenRows "string list" "error option" | ClosedRows error

fun Columns :: "cursor \<Rightarrow> error + string list" where
  "Columns (OpenRows columnFields closeResult) = Inr columnFields"
| "Columns (ClosedRows err) = Inl err"

fun Close :: "cursor \<Rightarrow> error option" where
  "Close (OpenRows columnFields closeResult) = closeResult"
| "Close (ClosedRows err) = None"

text \<open>
  The source database, the CSV writer and the remaining helpers are parameters: what
  each call answers. A result \<open>error option\<close> is Go's \<open>error\<close>, \<open>None\<close> being nil.
  \<open>versionTooOld\<close> and \<open>versionHasCollation\<close> are the two comparisons of
  \<open>common.VersionOrdinal\<close>; \<open>metaString\<close> is the \<open>String\<close> method of a chunk row.
\<close>

record source_env =
  GetOracleDBVersion :: "error + string"
  versionTooOld :: "string \<Rightarrow> bool"
  versionHasCollation :: "string \<Rightarrow> bool"
  filterCFGTable :: "error + string list"
  GetOracleSchemaTableColumn :: "string \<Rightarrow> string \<Rightarrow> bool \<Rightarrow> error + row list"
  GetOracleTableRowsByStatistics :: "string \<Rightarrow> string \<Rightarrow> error + int"
  GetOracleCurrentSnapshotSCN :: "error + nat"
  GetOracleSchemaPartitionTable :: "string \<Rightarrow> error + string list"
  GetOracleDBCharacterSet :: "error + string"
  StartOracleChunkCreateTask :: "string \<Rightarrow> error option"
  StartOracleCreateChunkByRowID :: "string \<Rightarrow> string \<Rightarrow> string \<Rightarrow> string \<Rightarrow> error option"
  GetOracleTableChunksByRowID :: "string \<Rightarrow> error + row list"
  CloseOracleChunkTask :: "string \<Rightarrow> error option"
  QueryContext :: "string \<Rightarrow> error + cursor"
  WriteFile :: "string \<Rightarrow> string \<Rightarrow> string \<Rightarrow> string \<Rightarrow> string \<Rightarrow> string list \<Rightarrow> error option"
  metaString :: "FullSyncMeta \<Rightarrow> string"
  filepathJoin :: "string list \<Rightarrow> string"

datatype source_call =
    StartTask string
  | CreateChunks string
  | FetchChunks string
  | CloseTask string
  | Query string
  | CloseCursor string
  | WriteCSV string

text \<open>
  The state a run works on: the metadata store; a schedule of metadata-store outages
  (one entry per gateway call still to come, \<open>True\<close> for a call that fails; when the
  schedule is used up the calls succeed); the calls made to the source so far; and the
  chunk-creation tasks that exist on the source.
\<close>

record world =
  metaDB :: meta_db
  metaFaults :: "bool list"
  sourceCalls :: "source_call list"
  chunkTasks :: "string list"

type_synonym 'a action = "world \<Rightarrow> (error + 'a) \<times> world"

definition ok :: "'a \<Rightarrow> 'a action" where
  "ok a w = (Inr a, w)"

definition raise :: "error \<Rightarrow> 'a action" where
  "raise e w = (Inl e, w)"

definition liftE :: "error + 'a \<Rightarrow> 'a action" where
  "liftE r w = (r, w)"

text \<open>\<open>x, err := m(); if err != nil { return err }; f x\<close>\<close>

definition andThen :: "'a action \<Rightarrow> ('a \<Rightarrow> 'b action) \<Rightarrow> 'b action" where
  "andThen m f w = (case m w of (Inl e, w') \<Rightarrow> (Inl e, w') | (Inr a, w') \<Rightarrow> f a w')"

definition wrapErr :: "string \<Rightarrow> 'a action \<Rightarrow> 'a action" where
  "wrapErr msg m w = (case m w of (Inl e, w') \<Rightarrow> (Inl (Wrapped msg e), w') | (Inr a, w') \<Rightarrow> (Inr a, w'))"

text \<open>A \<open>for ... range\<close> loop whose body returns from the function on an error.\<close>

fun forEach :: "('a \<Rightarrow> unit action) \<Rightarrow> 'a list \<Rightarrow> unit action" where
  "forEach body [] w = (Inr (), w)"
| "forEach body (x # xs) w =
     (case body x w of (Inl e, w') \<Rightarrow> (Inl e, w') | (Inr u, w') \<Rightarrow> forEach body xs w')"

text \<open>A gateway call: it fails as a whole, leaving the store as it was, or takes effect.\<close>

definition metaQuery :: "(meta_db \<Rightarrow> 'a) \<Rightarrow> 'a action" where
  "metaQuery q w =
     (case metaFaults w of
        [] \<Rightarrow> (Inr (q (metaDB w)), w)
      | fault # rest \<Rightarrow>
          if fault then (Inl MetaError, w\<lparr>metaFaults := rest\<rparr>)
          else (Inr (q (metaDB w)), w\<lparr>metaFaults := rest\<rparr>))"

definition metaExec :: "(meta_db \<Rightarrow> meta_db) \<Rightarrow> unit action" where
  "metaExec f w =
     (case metaFaults w of
        [] \<Rightarrow> (Inr (), w\<lparr>metaDB := f (metaDB w)\<rparr>)
      | fault # rest \<Rightarrow>
          if fault then (Inl MetaError, w\<lparr>metaFaults := rest\<rparr>)
          else (Inr (), w\<lparr>metaDB := f (metaDB w), metaFaults := rest\<rparr>))"

text \<open>
  Modelled from the spec: the chunk-task calls of package \<open>oracle\<close> (not part of the
  sources at hand) keep temporary chunk-task state on the source: a task exists from
  its successful start until its successful close.
\<close>

definition logCall :: "source_call \<Rightarrow> world \<Rightarrow> world" where
  "logCall c w = w\<lparr>sourceCalls := sourceCalls w @ [c]\<rparr>"

definition startChunkTask :: "source_env \<Rightarrow> string \<Rightarrow> unit action" where
  "startChunkTask env taskName w =
     (case StartOracleChunkCreateTask env taskName of
        Some e \<Rightarrow> (Inl e, logCall (StartTask taskName) w)
      | None \<Rightarrow> (Inr (), (logCall (StartTask taskName) w)\<lparr>chunkTasks := chunkTasks w @ [taskName]\<rparr>))"

definition closeChunkTask :: "source_env \<Rightarrow> string \<Rightarrow> unit action" where
  "closeChunkTask env taskName w =
     (case CloseOracleChunkTask env taskName of
        Some e \<Rightarrow> (Inl e, logCall (CloseTask taskName) w)
      | None \<Rightarrow> (Inr (), (logCall (CloseTask taskName) w)\<lparr>chunkTasks := removeAll taskName (chunkTasks w)\<rparr>))"

definition createChunkByRowID :: "source_env \<Rightarrow> string \<Rightarrow> string \<Rightarrow> string \<Rightarrow> string \<Rightarrow> unit action" where
  "createChunkByRowID env taskName schemaName tableName chunkSize w =
     (case StartOracleCreateChunkByRowID env taskName schemaName tableName chunkSize of
        Some e \<Rightarrow> (Inl e, logCall (CreateChunks taskName) w)
      | None \<Rightarrow> (Inr (), logCall (CreateChunks taskName) w))"

definition getTableChunksByRowID :: "source_env \<Rightarrow> string \<Rightarrow> (row list) action" where
  "getTableChunksByRowID env taskName w =
     (GetOracleTableChunksByRowID env taskName, logCall (FetchChunks taskName) w)"

definition cursorClose :: "cursor \<Rightarrow> string \<Rightarrow> unit action" where
  "cursorClose rowsResult querySQL w =
     (case Close rowsResult of
        Some e \<Rightarrow> (Inl e, logCall (CloseCursor querySQL) w)
      | None \<Rightarrow> (Inr (), logCall (CloseCursor querySQL) w))"

section \<open>\<open>errgroup.Group\<close>\<close>

text \<open>
  The tasks handed to \<open>g.Go\<close> are run one after the other, in the order of the loop
  that starts them (one schedule of the pool). A task that returns an error does not
  stop the others: the group has no context to cancel, and \<open>g.Wait\<close> returns the
  first error. A panic in a task ends the process, so nothing runs after it.
\<close>

fun groupGo :: "('a \<Rightarrow> unit action) \<Rightarrow> 'a list \<Rightarrow> error option \<Rightarrow> world \<Rightarrow> error option \<times> world" where
  "groupGo task [] firstErr w = (firstErr, w)"
| "groupGo task (x # xs) firstErr w =
     (case task x w of
        (Inl e, w') \<Rightarrow>
          if e = NilDereference then (Some e, w')
          else groupGo task xs (if firstErr = None then Some e else firstErr) w'
      | (Inr u, w') \<Rightarrow> groupGo task xs firstErr w')"

definition groupWait :: "error option \<times> world \<Rightarrow> (error + unit) \<times> world" where
  "groupWait r = (case r of (None, w) \<Rightarrow> (Inr (), w) | (Some e, w) \<Rightarrow> (Inl e, w))"

section \<open>The executor: \<open>csvPartSyncTable\<close>\<close>

definition chunkKey :: "FullSyncMeta \<Rightarrow> meta_key" where
  "chunkKey m = \<lparr>kDBTypeS = fDBTypeS m, kDBTypeT = fDBTypeT m, kSchemaNameS = fSchemaNameS m,
                 kTableNameS = fTableNameS m, kTaskMode = fTaskMode m\<rparr>"

definition recordChunkFailed :: "source_env \<Rightarrow> FullSyncMeta \<Rightarrow> error \<Rightarrow> unit action" where
  "recordChunkFailed env m err =
     metaExec (UpdateFullSyncMetaChunk (chunkKey m) (fChunkDetailS m)
       (\<lambda>r. r\<lparr>fTaskStatus := FAILED, fInfoDetail := metaString env m, fErrorDetail := errorText err\<rparr>))"

definition recordChunkSuccess :: "FullSyncMeta \<Rightarrow> unit action" where
  "recordChunkSuccess m =
     metaExec (UpdateFullSyncMetaChunk (chunkKey m) (fChunkDetailS m) (\<lambda>r. r\<lparr>fTaskStatus := SUCCESS\<rparr>))"

text \<open>
  The task of one chunk (the function handed to \<open>g1.Go\<close>). When \<open>QueryContext\<close>
  returns an error, the \<open>*sql.Rows\<close> it returns with it is nil, and the call
  \<open>rowsResult.Close()\<close> that follows the metadata update dereferences it.
\<close>

definition chunkQuerySQL :: "FullSyncMeta \<Rightarrow> string" where
  "chunkQuerySQL m = StringsBuilder [''SELECT '', fColumnDetailS m, '' FROM '', fSchemaNameS m,
                       ''.'', fTableNameS m, '' WHERE '', fChunkDetailS m]"

definition chunkTask :: "source_env \<Rightarrow> string \<Rightarrow> FullSyncMeta \<Rightarrow> unit action" where
  "chunkTask env oracleDBCharacterSet m w =
     (let querySQL = chunkQuerySQL m;
          w1 = logCall (Query querySQL) w
      in case QueryContext env querySQL of
           Inl err \<Rightarrow>
             andThen (wrapErr (''get oracle schema table ['' @ metaString env m @ ''] record by rowid sql falied: '')
                        (recordChunkFailed env m err))
               (\<lambda>u. raise NilDereference) w1
         | Inr rowsResult \<Rightarrow>
             (case Columns rowsResult of
                Inl err \<Rightarrow>
                  andThen (wrapErr (''get oracle schema table ['' @ metaString env m @ ''] rows.Columns failed: '')
                           (recordChunkFailed env m err))
                    (\<lambda>u. cursorClose rowsResult querySQL) w1
              | Inr columnFields \<Rightarrow>
                  (case WriteFile env (fSchemaNameS m) (fTableNameS m) oracleDBCharacterSet
                          querySQL (fCSVFile m) columnFields of
                     Some errW \<Rightarrow>
                       wrapErr (''get oracle schema table ['' @ metaString env m @ ''] write file failed: '')
                         (recordChunkFailed env m errW)
                         (logCall (WriteCSV (fCSVFile m)) w1)
                   | None \<Rightarrow> recordChunkSuccess m (logCall (WriteCSV (fCSVFile m)) w1))))"

definition tableKey :: "config \<Rightarrow> string \<Rightarrow> meta_key" where
  "tableKey cfg t = \<lparr>kDBTypeS = cfgDBTypeS cfg, kDBTypeT = cfgDBTypeT cfg,
                     kSchemaNameS = StringUPPER (cfgOracleSchemaName cfg),
                     kTableNameS = StringUPPER t, kTaskMode = cfgTaskMode cfg\<rparr>"

text \<open>
  The end of a table's task, after \<open>g1.Wait\<close>: count the FAILED chunk rows, load the
  SUCCESS ones, and either clean up and mark the table SUCCESS or mark it FAILED.
\<close>

definition finishTable :: "config \<Rightarrow> string \<Rightarrow> unit action" where
  "finishTable cfg t =
     andThen (wrapErr ''get meta table [full_sync_meta] counts failed, error: ''
                (metaQuery (CountsErrorFullSyncMeta (tableKey cfg t) FAILED)))
       (\<lambda>failedChunkTotalErrs.
          andThen (metaQuery (DetailFullSyncMeta (tableKey cfg t) SUCCESS))
            (\<lambda>successChunkFullMeta.
               if failedChunkTotalErrs = 0 then
                 metaExec (DeleteTableFullSyncMetaAndUpdateWaitSyncMeta (tableKey cfg t) SUCCESS
                             (int (length successChunkFullMeta)) 0)
               else
                 metaExec (UpdateWaitSyncMeta (tableKey cfg t)
                   (\<lambda>r. r\<lparr>wTaskStatus := FAILED,
                          wChunkSuccessNums := int (length successChunkFullMeta),
                          wChunkFailedNums := failedChunkTotalErrs\<rparr>))))"

text \<open>The task of one table (the function handed to \<open>g.Go\<close>).\<close>

definition tableTask :: "source_env \<Rightarrow> config \<Rightarrow> string \<Rightarrow> string \<Rightarrow> unit action" where
  "tableTask env cfg oracleDBCharacterSet t =
     andThen (metaExec (UpdateWaitSyncMeta
                ((tableKey cfg t)\<lparr>kSchemaNameS := cfgOracleSchemaName cfg\<rparr>)
                (\<lambda>r. r\<lparr>wTaskStatus := RUNNING\<rparr>)))
       (\<lambda>u. andThen (metaQuery (DetailFullSyncMeta (tableKey cfg t) WAITING))
         (\<lambda>waitFullMetas. andThen (metaQuery (DetailFullSyncMeta (tableKey cfg t) FAILED))
           (\<lambda>failedFullMetas.
              andThen (\<lambda>w. groupWait (groupGo (chunkTask env oracleDBCharacterSet)
                                        (waitFullMetas @ failedFullMetas) None w))
                (\<lambda>u. finishTable cfg t))))"

definition csvPartSyncTable :: "source_env \<Rightarrow> config \<Rightarrow> string list \<Rightarrow> unit action" where
  "csvPartSyncTable env cfg csvPartTables =
     andThen (liftE (GetOracleDBCharacterSet env))
       (\<lambda>oracleDBCharacterSet w.
          groupWait (groupGo (tableTask env cfg oracleDBCharacterSet) csvPartTables None w))"

section \<open>The planner: \<open>initWaitSyncTableRowID\<close>\<close>

definition adjustTableSelectColumn :: "source_env \<Rightarrow> config \<Rightarrow> string \<Rightarrow> bool \<Rightarrow> error + string" where
  "adjustTableSelectColumn env cfg sourceTable oracleCollation =
     (case GetOracleSchemaTableColumn env (cfgOracleSchemaName cfg) sourceTable oracleCollation of
        Inl e \<Rightarrow> Inl e
      | Inr columnsINFO \<Rightarrow> compileProjection columnsINFO)"

text \<open>The chunk row the planner builds for one predicate and one output file name.\<close>

definition chunkRow ::
    "source_env \<Rightarrow> config \<Rightarrow> nat \<Rightarrow> string \<Rightarrow> string \<Rightarrow> string \<Rightarrow> string \<Rightarrow> string \<Rightarrow> string \<Rightarrow> FullSyncMeta" where
  "chunkRow env cfg globalSCN t targetTableName sourceColumnInfo isPartition chunkDetail fileSuffix =
     \<lparr>fDBTypeS = cfgDBTypeS cfg, fDBTypeT = cfgDBTypeT cfg,
      fSchemaNameS = StringUPPER (cfgOracleSchemaName cfg), fTableNameS = StringUPPER t,
      fSchemaNameT = StringUPPER (cfgMySQLSchemaName cfg), fTableNameT = StringUPPER targetTableName,
      fGlobalScnS = globalSCN, fColumnDetailS = sourceColumnInfo, fChunkDetailS = chunkDetail,
      fTaskMode = cfgTaskMode cfg, fTaskStatus = WAITING, fIsPartition = isPartition,
      fCSVFile = filepathJoin env [cfgOutputDir cfg, StringUPPER (cfgOracleSchemaName cfg), StringUPPER t,
                   StringsBuilder [StringUPPER (cfgMySQLSchemaName cfg), ''.'',
                                   StringUPPER targetTableName, fileSuffix]],
      fInfoDetail = [], fErrorDetail = []\<rparr>"

text \<open>\<open>for i, res := range chunkRes\<close>: one row per predicate \<open>res["CMD"]\<close>, file index \<open>i\<close>.\<close>

fun fullMetasLoop :: "(string \<Rightarrow> string \<Rightarrow> FullSyncMeta) \<Rightarrow> int \<Rightarrow> row list \<Rightarrow> FullSyncMeta list \<Rightarrow> FullSyncMeta list" where
  "fullMetasLoop mk i [] fullMetas = fullMetas"
| "fullMetasLoop mk i (res # rest) fullMetas =
     fullMetasLoop mk (i + 1) rest
       (fullMetas @ [mk (rowGet res ''CMD'') (StringsBuilder [''.'', Itoa i, ''.csv''])])"

definition chunkTaskName :: "config \<Rightarrow> nat \<Rightarrow> string \<Rightarrow> string" where
  "chunkTaskName cfg workerID t =
     StringsBuilder [StringUPPER (cfgOracleSchemaName cfg), ''_'', StringUPPER t, ''_'', ''TASK'',
                     Itoa (int workerID)]"

text \<open>
  The task of one table (the function handed to \<open>g.Go\<close>); \<open>job\<close> is the pair of the
  loop's index \<open>idx\<close> and table \<open>tbl\<close>.
\<close>

definition planTable ::
    "source_env \<Rightarrow> config \<Rightarrow> nat \<Rightarrow> string list \<Rightarrow> (string \<rightharpoonup> string) \<Rightarrow> bool \<Rightarrow> nat \<times> string \<Rightarrow> unit action" where
  "planTable env cfg globalSCN partitionTables tableNameRule oracleCollation job =
     (let workerID = fst job; t = snd job;
          targetTableName = (case tableNameRule (StringUPPER t) of Some v \<Rightarrow> v | None \<Rightarrow> StringUPPER t)
      in if cfgOutputDir cfg = [] then raise OutputDirEmpty
         else andThen (liftE (adjustTableSelectColumn env cfg t oracleCollation))
           (\<lambda>sourceColumnInfo.
              let isPartition = (if IsContainString partitionTables (StringUPPER t) then ''YES'' else ''NO'');
                  mk = chunkRow env cfg globalSCN t targetTableName sourceColumnInfo isPartition;
                  wholeTable = metaExec (CreateFullSyncMetaAndUpdateWaitSyncMeta (mk ''1 = 1'' ''.0.csv'')
                                 (tableKey cfg t) globalSCN 1 0 0 isPartition)
              in andThen (liftE (GetOracleTableRowsByStatistics env (cfgOracleSchemaName cfg) t))
                (\<lambda>tableRowsByStatistics.
                   if tableRowsByStatistics = 0 then wholeTable
                   else
                     let taskName = chunkTaskName cfg workerID t
                     in andThen (startChunkTask env taskName)
                       (\<lambda>u. andThen (createChunkByRowID env taskName
                                       (StringUPPER (cfgOracleSchemaName cfg)) (StringUPPER t)
                                       (Itoa (cfgRows cfg)))
                         (\<lambda>u. andThen (getTableChunksByRowID env taskName)
                           (\<lambda>chunkRes.
                              if length chunkRes = 0 then wholeTable
                              else andThen (metaExec (BatchCreateFullSyncMetaAndUpdateWaitSyncMeta
                                              (fullMetasLoop mk 0 chunkRes []) (cfgInsertBatchSize cfg)
                                              (tableKey cfg t) globalSCN (int (length chunkRes)) 0 0
                                              isPartition))
                                     (\<lambda>u. closeChunkTask env taskName)))))))"

definition initWaitSyncTableRowID ::
    "source_env \<Rightarrow> config \<Rightarrow> string list \<Rightarrow> (string \<rightharpoonup> string) \<Rightarrow> bool \<Rightarrow> unit action" where
  "initWaitSyncTableRowID env cfg csvWaitTables tableNameRule oracleCollation =
     andThen (liftE (GetOracleCurrentSnapshotSCN env))
       (\<lambda>globalSCN.
          andThen (liftE (GetOracleSchemaPartitionTable env (cfgOracleSchemaName cfg)))
            (\<lambda>partitionTables w.
               groupWait (groupGo (planTable env cfg globalSCN partitionTables tableNameRule oracleCollation)
                            (enumerate 0 csvWaitTables) None w)))"

definition csvWaitSyncTable ::
    "source_env \<Rightarrow> config \<Rightarrow> string list \<Rightarrow> (string \<rightharpoonup> string) \<Rightarrow> bool \<Rightarrow> unit action" where
  "csvWaitSyncTable env cfg csvWaitTables tableNameRule oracleCollation =
     andThen (initWaitSyncTableRowID env cfg csvWaitTables tableNameRule oracleCollation)
       (\<lambda>u. csvPartSyncTable env cfg csvWaitTables)"

section \<open>The entry point: \<open>CSV\<close>\<close>

definition schemaKey :: "config \<Rightarrow> meta_key" where
  "schemaKey cfg = \<lparr>kDBTypeS = cfgDBTypeS cfg, kDBTypeT = cfgDBTypeT cfg,
                    kSchemaNameS = StringUPPER (cfgOracleSchemaName cfg),
                    kTableNameS = [], kTaskMode = cfgTaskMode cfg\<rparr>"

definition placeholderRow :: "config \<Rightarrow> string \<Rightarrow> WaitSyncMeta" where
  "placeholderRow cfg tableName =
     \<lparr>wDBTypeS = cfgDBTypeS cfg, wDBTypeT = cfgDBTypeT cfg,
      wSchemaNameS = StringUPPER (cfgOracleSchemaName cfg), wTableNameS = StringUPPER tableName,
      wTaskMode = cfgTaskMode cfg, wTaskStatus = WAITING,
      wGlobalScnS = TaskTableDefaultSourceGlobalSCN cfg,
      wChunkTotalNums = TaskTableDefaultSplitChunkNums cfg,
      wChunkSuccessNums = 0, wChunkFailedNums = 0, wIsPartition = []\<rparr>"

text \<open>
  \<open>recordTable k\<close>: look the table's row up under the key \<open>k\<close> and create a WAITING
  placeholder when there is none.
\<close>

definition recordTable :: "config \<Rightarrow> meta_key \<Rightarrow> string \<Rightarrow> unit action" where
  "recordTable cfg k tableName =
     andThen (metaQuery (DetailWaitSyncMeta k None))
       (\<lambda>waitSyncMetas.
          if length waitSyncMetas = 0 then metaExec (CreateWaitSyncMeta (placeholderRow cfg tableName))
          else ok ())"

text \<open>The body of the loop that runs when \<open>EnableCheckpoint\<close> is off.\<close>

definition resetTable :: "config \<Rightarrow> string \<Rightarrow> unit action" where
  "resetTable cfg tableName =
     andThen (metaExec (DeleteWaitSyncMeta ((schemaKey cfg)\<lparr>kTableNameS := tableName\<rparr>)))
       (\<lambda>u. recordTable cfg ((schemaKey cfg)\<lparr>kTableNameS := tableName\<rparr>) tableName)"

text \<open>
  The block of \<open>CSV\<close> under \<open>if !r.Cfg.CSVConfig.EnableCheckpoint\<close>: delete the chunk rows
  of the run, then reset the row of each configured table.
\<close>

definition csvReset :: "config \<Rightarrow> string list \<Rightarrow> unit action" where
  "csvReset cfg exporters =
     andThen (metaExec (DeleteFullSyncMetaBySchemaSyncMode
                ((schemaKey cfg)\<lparr>kTaskMode := StringUPPER (cfgTaskMode cfg)\<rparr>)))
       (\<lambda>u. forEach (resetTable cfg) exporters)"

definition csvReap :: "config \<Rightarrow> string list \<Rightarrow> unit action" where
  "csvReap cfg exporters =
     andThen (metaQuery (DetailWaitSyncMetaSuccessTables (schemaKey cfg)))
       (\<lambda>tablesByMeta.
          let clearTables = FilterDifferenceStringItems tablesByMeta exporters
          in if length clearTables > 0
             then metaExec (DeleteWaitSyncMetaSuccessTables (schemaKey cfg) clearTables)
             else ok ())"

definition csvFailFast :: "config \<Rightarrow> unit action" where
  "csvFailFast cfg =
     andThen (metaQuery (CountsErrWaitSyncMetaBySchema (schemaKey cfg) FAILED))
       (\<lambda>errTotals. if errTotals > 0 then raise PriorFailure else ok ())"

text \<open>
  The WAITING tables of the run. (The row the code passes as the query also carries the
  default snapshot and chunk total of a placeholder.)
\<close>

definition csvWaiting :: "config \<Rightarrow> (string list) action" where
  "csvWaiting cfg =
     andThen (metaQuery (DetailWaitSyncMeta (schemaKey cfg) (Some WAITING)))
       (\<lambda>waitSyncTableMetas. ok (map (\<lambda>table. StringUPPER (wTableNameS table)) waitSyncTableMetas))"

text \<open>
  Everything \<open>CSV\<close> does before it looks at the interrupted tables: the version gate,
  the configured tables, the reset, the clean-up of stale SUCCESS rows, the check for
  FAILED rows, one row per configured table, and the list of WAITING tables.
\<close>

definition csvPrepare :: "source_env \<Rightarrow> config \<Rightarrow> (string list \<times> bool \<times> string list) action" where
  "csvPrepare env cfg =
     andThen (liftE (GetOracleDBVersion env))
       (\<lambda>oraDBVersion.
          if versionTooOld env oraDBVersion then raise (VersionTooOld oraDBVersion)
          else andThen (liftE (filterCFGTable env))
            (\<lambda>exporters.
               andThen (if \<not> cfgEnableCheckpoint cfg then csvReset cfg exporters else ok ())
                 (\<lambda>u. andThen (csvReap cfg exporters)
                   (\<lambda>u. andThen (csvFailFast cfg)
                     (\<lambda>u. andThen (forEach (\<lambda>tableName. recordTable cfg
                                       ((schemaKey cfg)\<lparr>kTableNameS := StringUPPER tableName\<rparr>) tableName)
                                     exporters)
                       (\<lambda>u. andThen (csvWaiting cfg)
                         (\<lambda>waitSyncTables.
                            ok (exporters, versionHasCollation env oraDBVersion, waitSyncTables))))))))"

text \<open>
  The loop over the RUNNING tables: a table whose stored chunk rows are as many as its
  \<open>ChunkTotalNums\<close> goes to \<open>partSyncTables\<close>, any other to \<open>panicTblFullSlice\<close>.
\<close>

definition runningKey :: "WaitSyncMeta \<Rightarrow> meta_key" where
  "runningKey t = \<lparr>kDBTypeS = wDBTypeS t, kDBTypeT = wDBTypeT t,
                   kSchemaNameS = StringUPPER (wSchemaNameS t),
                   kTableNameS = wTableNameS t, kTaskMode = wTaskMode t\<rparr>"

fun classifyLoop :: "WaitSyncMeta list \<Rightarrow> string list \<Rightarrow> string list \<Rightarrow> (string list \<times> string list) action" where
  "classifyLoop [] partSyncTables panicTblFullSlice w = (Inr (partSyncTables, panicTblFullSlice), w)"
| "classifyLoop (t # ts) partSyncTables panicTblFullSlice w =
     (case metaQuery (CountsFullSyncMetaByTaskTable (runningKey t)) w of
        (Inl e, w') \<Rightarrow> (Inl e, w')
      | (Inr chunkCounts, w') \<Rightarrow>
          if chunkCounts \<noteq> wChunkTotalNums t
          then classifyLoop ts partSyncTables (panicTblFullSlice @ [wTableNameS t]) w'
          else classifyLoop ts (partSyncTables @ [wTableNameS t]) panicTblFullSlice w')"

definition csvClassify :: "config \<Rightarrow> (string list \<times> string list) action" where
  "csvClassify cfg =
     andThen (metaQuery (QueryWaitSyncMetaByPartTask (schemaKey cfg) RUNNING))
       (\<lambda>partSyncDetails. classifyLoop partSyncDetails [] [])"

definition tableNameRuleMap :: "(string \<times> string) list \<Rightarrow> (string \<rightharpoonup> string)" where
  "tableNameRuleMap tableNameRules =
     fold (\<lambda>tr m. m(StringUPPER (fst tr) \<mapsto> StringUPPER (snd tr))) tableNameRules Map.empty"

text \<open>The data phase and the closing report: interrupted tables first, then the WAITING ones.\<close>

definition csvExecute :: "source_env \<Rightarrow> config \<Rightarrow> bool \<Rightarrow> string list \<Rightarrow> string list \<Rightarrow> unit action" where
  "csvExecute env cfg oracleCollation partSyncTables waitSyncTables =
     andThen (if length partSyncTables > 0 then csvPartSyncTable env cfg partSyncTables else ok ())
       (\<lambda>u. andThen (if length waitSyncTables > 0
                      then andThen (metaQuery DetailTableNameRule)
                             (\<lambda>tableNameRules.
                                csvWaitSyncTable env cfg waitSyncTables
                                  (tableNameRuleMap tableNameRules) oracleCollation)
                      else ok ())
         (\<lambda>u. andThen (metaQuery (DetailWaitSyncMeta (schemaKey cfg) (Some SUCCESS)))
           (\<lambda>succTotals. andThen (metaQuery (DetailWaitSyncMeta (schemaKey cfg) (Some FAILED)))
             (\<lambda>failedTotals. ok ()))))"

definition CSV :: "source_env \<Rightarrow> config \<Rightarrow> unit action" where
  "CSV env cfg =
     andThen (csvPrepare env cfg)
       (\<lambda>prepared.
          let oracleCollation = fst (snd prepared); waitSyncTables = snd (snd prepared)
          in andThen (csvClassify cfg)
            (\<lambda>classified.
               if length (snd classified) > 0 then raise ChunkInconsistent
               else csvExecute env cfg oracleCollation (fst classified) waitSyncTables))"

section \<open>Properties used in the statements\<close>

text \<open>An action that makes no call to the source and leaves its chunk tasks alone.\<close>

definition sourceUntouched :: "'a action \<Rightarrow> bool" where
  "sourceUntouched m =
     (\<forall>w. sourceCalls (snd (m w)) = sourceCalls w \<and> chunkTasks (snd (m w)) = chunkTasks w)"

text \<open>A RUNNING table row whose stored chunk rows are as many as its total.\<close>

definition chunkCountConsistent :: "meta_db \<Rightarrow> WaitSyncMeta \<Rightarrow> bool" where
  "chunkCountConsistent db t = (CountsFullSyncMetaByTaskTable (runningKey t) db = wChunkTotalNums t)"

text \<open>
  The plan of a chunk row is the row without its status and diagnostics; the plan of a
  table row is its snapshot, chunk total and partition flag.
\<close>

definition chunkPlan :: "FullSyncMeta \<Rightarrow> FullSyncMeta" where
  "chunkPlan r = r\<lparr>fTaskStatus := WAITING, fInfoDetail := [], fErrorDetail := []\<rparr>"

definition tablePlan :: "WaitSyncMeta \<Rightarrow> nat \<times> int \<times> string" where
  "tablePlan r = (wGlobalScnS r, wChunkTotalNums r, wIsPartition r)"

text \<open>
  The table under key \<open>k\<close> has not been planned again between the stores \<open>db\<close> and
  \<open>db'\<close>: its chunk rows in \<open>db'\<close> are, in order, chunk rows it had in \<open>db\<close>, changed at
  most in status and diagnostics (none is new), and its table rows have the plan they
  had.
\<close>

definition planKept :: "meta_key \<Rightarrow> meta_db \<Rightarrow> meta_db \<Rightarrow> bool" where
  "planKept k db db' =
     (subseq (map chunkPlan (filter (tableMatchF k) (full_sync_meta db')))
             (map chunkPlan (filter (tableMatchF k) (full_sync_meta db))) \<and>
      map tablePlan (filter (tableMatchW k) (wait_sync_meta db')) =
        map tablePlan (filter (tableMatchW k) (wait_sync_meta db)))"

definition keepsPlan :: "meta_key \<Rightarrow> 'a action \<Rightarrow> bool" where
  "keepsPlan k m = (\<forall>w. planKept k (metaDB w) (metaDB (snd (m w))))"

section \<open>Example data\<close>

text \<open>
  A small installation on which the theorems below are instantiated: source schema
  \<open>src\<close> with one table \<open>t\<close>, target schema \<open>dst\<close>, task mode \<open>CSV\<close>.
\<close>

definition demoCfg :: config where
  "demoCfg = \<lparr>cfgDBTypeS = ''ORACLE'', cfgDBTypeT = ''MYSQL'', cfgTaskMode = ''CSV'',
              cfgOracleSchemaName = ''src'', cfgMySQLSchemaName = ''dst'',
              cfgEnableCheckpoint = True, cfgOutputDir = ''/data'', cfgRows = 1000,
              cfgInsertBatchSize = 100, TaskTableDefaultSourceGlobalSCN = 0,
              TaskTableDefaultSplitChunkNums = 0\<rparr>"

definition demoTable :: "string \<Rightarrow> task_status \<Rightarrow> int \<Rightarrow> WaitSyncMeta" where
  "demoTable name st chunkTotalNums =
     \<lparr>wDBTypeS = ''ORACLE'', wDBTypeT = ''MYSQL'', wSchemaNameS = ''SRC'', wTableNameS = name,
      wTaskMode = ''CSV'', wTaskStatus = st, wGlobalScnS = 7, wChunkTotalNums = chunkTotalNums,
      wChunkSuccessNums = 0, wChunkFailedNums = 0, wIsPartition = ''NO''\<rparr>"

definition demoChunk :: "string \<Rightarrow> task_status \<Rightarrow> FullSyncMeta" where
  "demoChunk predicate st =
     \<lparr>fDBTypeS = ''ORACLE'', fDBTypeT = ''MYSQL'', fSchemaNameS = ''SRC'', fTableNameS = ''T'',
      fSchemaNameT = ''DST'', fTableNameT = ''T'', fGlobalScnS = 7, fColumnDetailS = ''ID'',
      fChunkDetailS = predicate, fTaskMode = ''CSV'', fTaskStatus = st, fIsPartition = ''NO'',
      fCSVFile = ''/data/SRC/T/DST.T.0.csv'', fInfoDetail = [], fErrorDetail = []\<rparr>"

definition demoWorld :: "WaitSyncMeta list \<Rightarrow> FullSyncMeta list \<Rightarrow> world" where
  "demoWorld tables chunks =
     \<lparr>metaDB = \<lparr>wait_sync_meta = tables, full_sync_meta = chunks, table_name_rule = []\<rparr>,
      metaFaults = [], sourceCalls = [], chunkTasks = []\<rparr>"

text \<open>
  A source on which every call succeeds: table \<open>t\<close> has the one column \<open>ID NUMBER\<close>,
  statistics report no rows and the splitter returns no chunks.
\<close>

definition demoEnv :: source_env where
  "demoEnv =
     \<lparr>GetOracleDBVersion = Inr ''19.0'',
      versionTooOld = (\<lambda>v. False),
      versionHasCollation = (\<lambda>v. True),
      filterCFGTable = Inr [''t''],
      GetOracleSchemaTableColumn =
        (\<lambda>schemaName tableName collation.
           Inr [map_of [(''COLUMN_NAME'', ''ID''), (''DATA_TYPE'', ''NUMBER'')]]),
      GetOracleTableRowsByStatistics = (\<lambda>schemaName tableName. Inr 0),
      GetOracleCurrentSnapshotSCN = Inr 7,
      GetOracleSchemaPartitionTable = (\<lambda>schemaName. Inr []),
      GetOracleDBCharacterSet = Inr ''AL32UTF8'',
      StartOracleChunkCreateTask = (\<lambda>taskName. None),
      StartOracleCreateChunkByRowID = (\<lambda>taskName schemaName tableName chunkSize. None),
      GetOracleTableChunksByRowID = (\<lambda>taskName. Inr []),
      CloseOracleChunkTask = (\<lambda>taskName. None),
      QueryContext = (\<lambda>querySQL. Inr (OpenRows [''ID''] None)),
      WriteFile = (\<lambda>schemaName tableName charset querySQL csvFile columnFields. None),
      metaString = fChunkDetailS,
      filepathJoin = (\<lambda>elem. Join elem ''/'')\<rparr>"

text \<open>The same source, with a given answer of \<open>QueryContext\<close>.\<close>

definition demoCursorEnv :: "error + cursor \<Rightarrow> source_env" where
  "demoCursorEnv answer = demoEnv\<lparr>QueryContext := (\<lambda>querySQL. answer)\<rparr>"

text \<open>The same source, where the statistics of every table report five rows.\<close>

definition demoEnvRows :: source_env where
  "demoEnvRows = demoEnv\<lparr>GetOracleTableRowsByStatistics := (\<lambda>schemaName tableName. Inr 5)\<rparr>"


text \<open>The source of \<open>demoEnvRows\<close>, where the splitter's chunking call fails.\<close>

definition demoEnvSplitFails :: source_env where
  "demoEnvSplitFails =
     demoEnvRows\<lparr>StartOracleCreateChunkByRowID :=
        (\<lambda>taskName schemaName tableName chunkSize. Some (SourceError ''ORA-29494''))\<rparr>"


chapter \<open>Verification\<close>

section \<open>The projection compiler\<close>

lemmas projection_eval =
  compileProjection_def columnExpr_def rowGet_def ToUpper_def upperChar_def upperTable_def
  numericTypes_def characterTypes_def binaryTypes_def StringsBuilder_def Atoi_def isDigit_def

lemma Contains_iff: "Contains s sub \<longleftrightarrow> (\<exists>p q. s = p @ sub @ q)"
proof (induction s)
  case Nil
  then show ?case by auto
next
  case (Cons c cs)
  have "(\<exists>p q. c # cs = p @ sub @ q) \<longleftrightarrow>
        take (length sub) (c # cs) = sub \<or> (\<exists>p q. cs = p @ sub @ q)"
  proof
    assume "\<exists>p q. c # cs = p @ sub @ q"
    then obtain p q where pq: "c # cs = p @ sub @ q" by blast
    show "take (length sub) (c # cs) = sub \<or> (\<exists>p q. cs = p @ sub @ q)"
    proof (cases p)
      case Nil
      with pq show ?thesis by simp
    next
      case (Cons a p')
      with pq have "cs = p' @ sub @ q" by simp
      then show ?thesis by blast
    qed
  next
    assume "take (length sub) (c # cs) = sub \<or> (\<exists>p q. cs = p @ sub @ q)"
    then show "\<exists>p q. c # cs = p @ sub @ q"
    proof
      assume "take (length sub) (c # cs) = sub"
      then have "c # cs = [] @ sub @ drop (length sub) (c # cs)"
        by (metis append_Nil append_take_drop_id)
      then show ?thesis by blast
    next
      assume "\<exists>p q. cs = p @ sub @ q"
      then obtain p q where "cs = p @ sub @ q" by blast
      then have "c # cs = (c # p) @ sub @ q" by simp
      then show ?thesis by blast
    qed
  qed
  with Cons.IH show ?case by simp
qed

lemma columnExpr_shape:
  assumes "columnExpr r = Inr x"
  shows "x = rowGet r ''COLUMN_NAME'' \<or> (\<exists>e. x = e @ '' AS '' @ rowGet r ''COLUMN_NAME'')"
  using assms unfolding columnExpr_def Let_def StringsBuilder_def
  by (auto split: if_splits option.splits)

lemma selectColumns_shape:
  "selectColumns cols acc = Inr out \<Longrightarrow>
     \<exists>exprs. out = acc @ exprs \<and>
       list_all2 (\<lambda>r x. x = rowGet r ''COLUMN_NAME'' \<or> (\<exists>e. x = e @ '' AS '' @ rowGet r ''COLUMN_NAME''))
         cols exprs"
proof (induction cols arbitrary: acc)
  case Nil
  then show ?case by simp
next
  case (Cons r rest)
  from Cons.prems obtain x where x: "columnExpr r = Inr x"
      and rest: "selectColumns rest (acc @ [x]) = Inr out"
    by (auto split: sum.splits)
  from Cons.IH [OF rest] obtain exprs where
      out: "out = (acc @ [x]) @ exprs"
      and all: "list_all2 (\<lambda>r x. x = rowGet r ''COLUMN_NAME'' \<or> (\<exists>e. x = e @ '' AS '' @ rowGet r ''COLUMN_NAME''))
                  rest exprs"
    by blast
  from columnExpr_shape [OF x] all
  have "list_all2 (\<lambda>r x. x = rowGet r ''COLUMN_NAME'' \<or> (\<exists>e. x = e @ '' AS '' @ rowGet r ''COLUMN_NAME''))
          (r # rest) (x # exprs)"
    by simp
  with out show ?case by auto
qed

text \<open>
  C10. Whenever the projection compiler succeeds, its result is the comma-join of one
  expression per catalog column, in the catalog's order, and the expression of a column
  is its bare name or ends in \<open> AS <name>\<close>.
\<close>

theorem projection_one_expression_per_column:
  assumes "compileProjection columnsINFO = Inr projection"
  shows "\<exists>exprs. projection = Join exprs '','' \<and> length exprs = length columnsINFO \<and>
           (\<forall>i < length columnsINFO.
              exprs ! i = rowGet (columnsINFO ! i) ''COLUMN_NAME'' \<or>
              (\<exists>e. exprs ! i = e @ '' AS '' @ rowGet (columnsINFO ! i) ''COLUMN_NAME''))"
proof -
  from assms obtain names where sel: "selectColumns columnsINFO [] = Inr names"
      and proj: "projection = Join names '',''"
    by (auto simp: compileProjection_def split: sum.splits)
  from selectColumns_shape [OF sel]
  have all: "list_all2 (\<lambda>r x. x = rowGet r ''COLUMN_NAME'' \<or> (\<exists>e. x = e @ '' AS '' @ rowGet r ''COLUMN_NAME''))
               columnsINFO names"
    by simp
  then have len: "length names = length columnsINFO"
    by (simp add: list_all2_lengthD)
  from all have "\<forall>i < length columnsINFO.
       names ! i = rowGet (columnsINFO ! i) ''COLUMN_NAME'' \<or>
       (\<exists>e. names ! i = e @ '' AS '' @ rowGet (columnsINFO ! i) ''COLUMN_NAME'')"
    by (simp add: list_all2_conv_all_nth)
  with proj len show ?thesis by blast
qed

theorem projection_one_expression_per_column_witness:
  "compileProjection
     [map_of [(''COLUMN_NAME'', ''ID''), (''DATA_TYPE'', ''NUMBER'')],
      map_of [(''COLUMN_NAME'', ''D''), (''DATA_TYPE'', ''DATE'')]]
   = Inr ''ID,TO_CHAR(D,'yyyy-MM-dd HH24:mi:ss') AS D'' \<and>
   (\<exists>exprs. ''ID,TO_CHAR(D,'yyyy-MM-dd HH24:mi:ss') AS D'' = Join exprs '','' \<and>
      length exprs = 2 \<and>
      (exprs ! 0 = ''ID'' \<or> (\<exists>e. exprs ! 0 = e @ '' AS ID'')) \<and>
      (exprs ! 1 = ''D'' \<or> (\<exists>e. exprs ! 1 = e @ '' AS D'')))"
proof -
  have run: "compileProjection
     [map_of [(''COLUMN_NAME'', ''ID''), (''DATA_TYPE'', ''NUMBER'')],
      map_of [(''COLUMN_NAME'', ''D''), (''DATA_TYPE'', ''DATE'')]]
   = Inr ''ID,TO_CHAR(D,'yyyy-MM-dd HH24:mi:ss') AS D''"
    by (simp add: projection_eval)
  from projection_one_expression_per_column [OF run]
  obtain exprs where j: "''ID,TO_CHAR(D,'yyyy-MM-dd HH24:mi:ss') AS D'' = Join exprs '',''"
    and l: "length exprs = 2"
    and a: "\<forall>i<2. exprs ! i = rowGet ([map_of [(''COLUMN_NAME'', ''ID''), (''DATA_TYPE'', ''NUMBER'')],
                  map_of [(''COLUMN_NAME'', ''D''), (''DATA_TYPE'', ''DATE'')]] ! i) ''COLUMN_NAME'' \<or>
              (\<exists>e. exprs ! i = e @ '' AS '' @ rowGet ([map_of [(''COLUMN_NAME'', ''ID''), (''DATA_TYPE'', ''NUMBER'')],
                  map_of [(''COLUMN_NAME'', ''D''), (''DATA_TYPE'', ''DATE'')]] ! i) ''COLUMN_NAME'')"
    by auto
  from a have a0: "exprs ! 0 = ''ID'' \<or> (\<exists>e. exprs ! 0 = e @ '' AS ID'')"
    by (auto simp: rowGet_def dest: spec [of _ 0])
  from a have a1: "exprs ! 1 = ''D'' \<or> (\<exists>e. exprs ! 1 = e @ '' AS D'')"
    by (auto simp: rowGet_def dest: spec [of _ 1])
  from run j l a0 a1 show ?thesis by blast
qed

text \<open>
  C7. On the catalog \<open>D DATE; I INTERVAL DAY TO SECOND; X XMLTYPE; N NUMBER; R RAW\<close> the
  compiler's result carries one space in front of \<open>XMLSERIALIZE\<close>, the first character of
  the format string of that wrapper; it is not the string without that space.
\<close>

theorem projection_S5_with_space:
  "compileProjection
     [map_of [(''COLUMN_NAME'', ''D''), (''DATA_TYPE'', ''DATE'')],
      map_of [(''COLUMN_NAME'', ''I''), (''DATA_TYPE'', ''INTERVAL DAY TO SECOND'')],
      map_of [(''COLUMN_NAME'', ''X''), (''DATA_TYPE'', ''XMLTYPE'')],
      map_of [(''COLUMN_NAME'', ''N''), (''DATA_TYPE'', ''NUMBER'')],
      map_of [(''COLUMN_NAME'', ''R''), (''DATA_TYPE'', ''RAW'')]]
   = Inr ''TO_CHAR(D,'yyyy-MM-dd HH24:mi:ss') AS D,TO_CHAR(I) AS I, XMLSERIALIZE(CONTENT X AS CLOB) AS X,N,R''"
  by (simp add: projection_eval)

theorem projection_S5_counterexample:
  "compileProjection
     [map_of [(''COLUMN_NAME'', ''D''), (''DATA_TYPE'', ''DATE'')],
      map_of [(''COLUMN_NAME'', ''I''), (''DATA_TYPE'', ''INTERVAL DAY TO SECOND'')],
      map_of [(''COLUMN_NAME'', ''X''), (''DATA_TYPE'', ''XMLTYPE'')],
      map_of [(''COLUMN_NAME'', ''N''), (''DATA_TYPE'', ''NUMBER'')],
      map_of [(''COLUMN_NAME'', ''R''), (''DATA_TYPE'', ''RAW'')]]
   \<noteq> Inr ''TO_CHAR(D,'yyyy-MM-dd HH24:mi:ss') AS D,TO_CHAR(I) AS I,XMLSERIALIZE(CONTENT X AS CLOB) AS X,N,R''"
  by (simp add: projection_eval)

text \<open>
  C1. A TIMESTAMP column of scale 3 is formatted with \<open>.ff6\<close>, not \<open>.ff3\<close>, and one of
  scale -1 with \<open>.ff-1\<close>: the guard of the middle branch reads \<open>dataScale < 0\<close>.
\<close>

theorem timestamp_scale_branch:
  "compileProjection
     [map_of [(''COLUMN_NAME'', ''TS''), (''DATA_TYPE'', ''TIMESTAMP(3)''), (''DATA_SCALE'', ''3'')]]
   = Inr ''TO_CHAR(TS,'yyyy-mm-dd hh24:mi:ss.ff6') AS TS'' \<and>
   compileProjection
     [map_of [(''COLUMN_NAME'', ''TS''), (''DATA_TYPE'', ''TIMESTAMP(3)''), (''DATA_SCALE'', ''-1'')]]
   = Inr ''TO_CHAR(TS,'yyyy-mm-dd hh24:mi:ss.ff-1') AS TS''"
  by (simp add: projection_eval)

section \<open>Gateway calls\<close>

lemmas meta_eval =
  tableKey_def schemaKey_def chunkKey_def tableMatchW_def schemaMatchW_def tableMatchF_def
  schemaMatchF_def StringUPPER_def ToUpper_def upperChar_def upperTable_def canonW_def canonF_def
  runningKey_def

lemmas demo_eval = demoCfg_def demoTable_def demoChunk_def demoWorld_def demoEnv_def

lemma metaQuery_cases:
  "(\<exists>w'. metaQuery q w = (Inl MetaError, w') \<and> metaDB w' = metaDB w \<and>
         sourceCalls w' = sourceCalls w \<and> chunkTasks w' = chunkTasks w) \<or>
   (\<exists>w'. metaQuery q w = (Inr (q (metaDB w)), w') \<and> metaDB w' = metaDB w \<and>
         sourceCalls w' = sourceCalls w \<and> chunkTasks w' = chunkTasks w \<and>
         (metaFaults w = [] \<longrightarrow> metaFaults w' = []))"
  by (auto simp: metaQuery_def split: list.splits)

lemma metaExec_cases:
  "(\<exists>w'. metaExec f w = (Inl MetaError, w') \<and> metaDB w' = metaDB w \<and>
         sourceCalls w' = sourceCalls w \<and> chunkTasks w' = chunkTasks w) \<or>
   (\<exists>w'. metaExec f w = (Inr (), w') \<and> metaDB w' = f (metaDB w) \<and>
         sourceCalls w' = sourceCalls w \<and> chunkTasks w' = chunkTasks w \<and>
         (metaFaults w = [] \<longrightarrow> metaFaults w' = []))"
  by (auto simp: metaExec_def split: list.splits)

lemma metaQuery_nofault: "metaFaults w = [] \<Longrightarrow> metaQuery q w = (Inr (q (metaDB w)), w)"
  by (simp add: metaQuery_def)

lemma metaExec_nofault:
  "metaFaults w = [] \<Longrightarrow> metaExec f w = (Inr (), w\<lparr>metaDB := f (metaDB w)\<rparr>)"
  by (simp add: metaExec_def)

section \<open>Planning one table\<close>

lemma upperChar_idem: "upperChar (upperChar c) = upperChar c"
  by (simp add: upperChar_def upperTable_def)

lemma StringUPPER_idem: "StringUPPER (StringUPPER s) = StringUPPER s"
  by (simp add: StringUPPER_def ToUpper_def upperChar_idem)

text \<open>
  C6. For a table whose planning gets as far as the statistics (the output directory is
  set, the projection compiles, the metadata store answers): when the statistics report
  zero rows, no call is made to the source's splitter, exactly one chunk row is added,
  with predicate \<open>1 = 1\<close>, and the table's row gets \<open>ChunkTotalNums = 1\<close>; when the
  statistics report rows and the splitter returns no chunk, the same one row is added
  and the same total is set.
\<close>

theorem planTable_whole_table_chunk:
  assumes out: "cfgOutputDir cfg \<noteq> []"
    and proj: "adjustTableSelectColumn env cfg t oracleCollation = Inr sourceColumnInfo"
    and stats: "GetOracleTableRowsByStatistics env (cfgOracleSchemaName cfg) t = Inr n"
    and nofault: "metaFaults w = []"
    and empty: "n = 0 \<or>
       (StartOracleChunkCreateTask env (chunkTaskName cfg workerID t) = None \<and>
        StartOracleCreateChunkByRowID env (chunkTaskName cfg workerID t)
          (StringUPPER (cfgOracleSchemaName cfg)) (StringUPPER t) (Itoa (cfgRows cfg)) = None \<and>
        GetOracleTableChunksByRowID env (chunkTaskName cfg workerID t) = Inr [])"
  shows "\<exists>w' chunk.
           planTable env cfg globalSCN partitionTables tableNameRule oracleCollation (workerID, t) w
             = (Inr (), w') \<and>
           full_sync_meta (metaDB w') = full_sync_meta (metaDB w) @ [chunk] \<and>
           fChunkDetailS chunk = ''1 = 1'' \<and>
           fSchemaNameS chunk = StringUPPER (cfgOracleSchemaName cfg) \<and>
           fTableNameS chunk = StringUPPER t \<and>
           fColumnDetailS chunk = sourceColumnInfo \<and>
           fTaskStatus chunk = WAITING \<and>
           length (wait_sync_meta (metaDB w')) = length (wait_sync_meta (metaDB w)) \<and>
           (\<forall>i < length (wait_sync_meta (metaDB w)).
              if tableMatchW (tableKey cfg t) (wait_sync_meta (metaDB w) ! i)
              then tableMatchW (tableKey cfg t) (wait_sync_meta (metaDB w') ! i) \<and>
                   wChunkTotalNums (wait_sync_meta (metaDB w') ! i) = 1 \<and>
                   wChunkSuccessNums (wait_sync_meta (metaDB w') ! i) = 0 \<and>
                   wChunkFailedNums (wait_sync_meta (metaDB w') ! i) = 0 \<and>
                   wTaskStatus (wait_sync_meta (metaDB w') ! i) = WAITING
              else wait_sync_meta (metaDB w') ! i = wait_sync_meta (metaDB w) ! i) \<and>
           (n = 0 \<longrightarrow> sourceCalls w' = sourceCalls w \<and> chunkTasks w' = chunkTasks w)"
proof -
  define target where
    "target = (case tableNameRule (StringUPPER t) of Some v \<Rightarrow> v | None \<Rightarrow> StringUPPER t)"
  define isPartition where
    "isPartition = (if IsContainString partitionTables (StringUPPER t) then ''YES'' else ''NO'')"
  define mk where "mk = chunkRow env cfg globalSCN t target sourceColumnInfo isPartition"
  define chunk where "chunk = canonF (mk ''1 = 1'' ''.0.csv'')"
  define create where
    "create = CreateFullSyncMetaAndUpdateWaitSyncMeta (mk ''1 = 1'' ''.0.csv'')
                (tableKey cfg t) globalSCN 1 0 0 isPartition"
  have chunk: "fChunkDetailS chunk = ''1 = 1'' \<and>
           fSchemaNameS chunk = StringUPPER (cfgOracleSchemaName cfg) \<and>
           fTableNameS chunk = StringUPPER t \<and>
           fColumnDetailS chunk = sourceColumnInfo \<and>
           fTaskStatus chunk = WAITING"
    by (simp add: chunk_def mk_def canonF_def chunkRow_def StringUPPER_idem)
  have full: "full_sync_meta (create (metaDB w)) = full_sync_meta (metaDB w) @ [chunk]"
    by (simp add: create_def chunk_def CreateFullSyncMetaAndUpdateWaitSyncMeta_def
          BatchCreateFullSyncMetaAndUpdateWaitSyncMeta_def)
  have len: "length (wait_sync_meta (create (metaDB w))) = length (wait_sync_meta (metaDB w))"
    by (simp add: create_def CreateFullSyncMetaAndUpdateWaitSyncMeta_def
          BatchCreateFullSyncMetaAndUpdateWaitSyncMeta_def)
  have rows: "\<forall>i < length (wait_sync_meta (metaDB w)).
              if tableMatchW (tableKey cfg t) (wait_sync_meta (metaDB w) ! i)
              then tableMatchW (tableKey cfg t) (wait_sync_meta (create (metaDB w)) ! i) \<and>
                   wChunkTotalNums (wait_sync_meta (create (metaDB w)) ! i) = 1 \<and>
                   wChunkSuccessNums (wait_sync_meta (create (metaDB w)) ! i) = 0 \<and>
                   wChunkFailedNums (wait_sync_meta (create (metaDB w)) ! i) = 0 \<and>
                   wTaskStatus (wait_sync_meta (create (metaDB w)) ! i) = WAITING
              else wait_sync_meta (create (metaDB w)) ! i = wait_sync_meta (metaDB w) ! i"
    by (simp add: create_def CreateFullSyncMetaAndUpdateWaitSyncMeta_def
          BatchCreateFullSyncMetaAndUpdateWaitSyncMeta_def tableMatchW_def schemaMatchW_def)
  show ?thesis
  proof (cases "n = 0")
    case True
    have run: "planTable env cfg globalSCN partitionTables tableNameRule oracleCollation (workerID, t) w
                 = (Inr (), w\<lparr>metaDB := create (metaDB w)\<rparr>)"
      using out proj stats nofault True
      by (simp add: planTable_def Let_def andThen_def liftE_def metaExec_nofault
            create_def mk_def isPartition_def target_def)
    from True chunk full len rows show ?thesis
      unfolding run by (intro exI [of _ "w\<lparr>metaDB := create (metaDB w)\<rparr>"] exI [of _ chunk]) simp
  next
    case False
    with empty have
      s1: "StartOracleChunkCreateTask env (chunkTaskName cfg workerID t) = None" and
      s2: "StartOracleCreateChunkByRowID env (chunkTaskName cfg workerID t)
             (StringUPPER (cfgOracleSchemaName cfg)) (StringUPPER t) (Itoa (cfgRows cfg)) = None" and
      s3: "GetOracleTableChunksByRowID env (chunkTaskName cfg workerID t) = Inr []"
      by auto
    define w3 where
      "w3 = w\<lparr>sourceCalls := sourceCalls w @ [StartTask (chunkTaskName cfg workerID t),
                  CreateChunks (chunkTaskName cfg workerID t), FetchChunks (chunkTaskName cfg workerID t)],
               chunkTasks := chunkTasks w @ [chunkTaskName cfg workerID t]\<rparr>"
    have run: "planTable env cfg globalSCN partitionTables tableNameRule oracleCollation (workerID, t) w
                 = (Inr (), w3\<lparr>metaDB := create (metaDB w)\<rparr>)"
      using out proj stats nofault False s1 s2 s3
      by (simp add: planTable_def Let_def andThen_def liftE_def metaExec_nofault
            startChunkTask_def createChunkByRowID_def getTableChunksByRowID_def logCall_def
            create_def mk_def isPartition_def target_def w3_def)
    from False chunk full len rows show ?thesis
      unfolding run by (intro exI [of _ "w3\<lparr>metaDB := create (metaDB w)\<rparr>"] exI [of _ chunk]) simp
  qed
qed

theorem planTable_whole_table_chunk_witness:
  "cfgOutputDir demoCfg \<noteq> [] \<and>
   adjustTableSelectColumn demoEnv demoCfg ''t'' True = Inr ''ID'' \<and>
   GetOracleTableRowsByStatistics demoEnv (cfgOracleSchemaName demoCfg) ''t'' = Inr 0 \<and>
   GetOracleTableRowsByStatistics demoEnvRows (cfgOracleSchemaName demoCfg) ''t'' = Inr 5 \<and>
   GetOracleTableChunksByRowID demoEnvRows (chunkTaskName demoCfg 0 ''t'') = Inr [] \<and>
   (\<exists>w' chunk.
      planTable demoEnv demoCfg 7 [] Map.empty True (0, ''t'') (demoWorld [demoTable ''T'' WAITING 0] [])
        = (Inr (), w') \<and>
      full_sync_meta (metaDB w') = [chunk] \<and> fChunkDetailS chunk = ''1 = 1'' \<and>
      wChunkTotalNums (wait_sync_meta (metaDB w') ! 0) = 1 \<and> sourceCalls w' = []) \<and>
   (\<exists>w' chunk.
      planTable demoEnvRows demoCfg 7 [] Map.empty True (0, ''t'') (demoWorld [demoTable ''T'' WAITING 0] [])
        = (Inr (), w') \<and>
      full_sync_meta (metaDB w') = [chunk] \<and> fChunkDetailS chunk = ''1 = 1'' \<and>
      wChunkTotalNums (wait_sync_meta (metaDB w') ! 0) = 1)"
proof -
  let ?w = "demoWorld [demoTable ''T'' WAITING 0] []"
  have out: "cfgOutputDir demoCfg \<noteq> []" by (simp add: demoCfg_def)
  have nf: "metaFaults ?w = []" by (simp add: demoWorld_def)
  have p0: "adjustTableSelectColumn demoEnv demoCfg ''t'' True = Inr ''ID''"
    by (simp add: adjustTableSelectColumn_def demo_eval projection_eval)
  have p5: "adjustTableSelectColumn demoEnvRows demoCfg ''t'' True = Inr ''ID''"
    by (simp add: adjustTableSelectColumn_def demo_eval demoEnvRows_def projection_eval)
  have s0: "GetOracleTableRowsByStatistics demoEnv (cfgOracleSchemaName demoCfg) ''t'' = Inr 0"
    by (simp add: demo_eval)
  have s5: "GetOracleTableRowsByStatistics demoEnvRows (cfgOracleSchemaName demoCfg) ''t'' = Inr 5"
    by (simp add: demo_eval demoEnvRows_def)
  have e5: "StartOracleChunkCreateTask demoEnvRows (chunkTaskName demoCfg 0 ''t'') = None \<and>
        StartOracleCreateChunkByRowID demoEnvRows (chunkTaskName demoCfg 0 ''t'')
          (StringUPPER (cfgOracleSchemaName demoCfg)) (StringUPPER ''t'') (Itoa (cfgRows demoCfg)) = None \<and>
        GetOracleTableChunksByRowID demoEnvRows (chunkTaskName demoCfg 0 ''t'') = Inr []"
    by (simp add: demo_eval demoEnvRows_def)
  have m: "tableMatchW (tableKey demoCfg ''t'') (wait_sync_meta (metaDB ?w) ! 0)"
    and l: "0 < length (wait_sync_meta (metaDB ?w))"
    and f: "full_sync_meta (metaDB ?w) = []" and c: "sourceCalls ?w = []"
    by (simp_all add: demo_eval meta_eval)
  from planTable_whole_table_chunk [OF out p0 s0 nf disjI1 [OF refl],
      where globalSCN = 7 and partitionTables = "[]" and tableNameRule = Map.empty and workerID = 0]
  obtain w0 chunk0 where a:
      "planTable demoEnv demoCfg 7 [] Map.empty True (0, ''t'') ?w = (Inr (), w0)"
      "full_sync_meta (metaDB w0) = [chunk0]" "fChunkDetailS chunk0 = ''1 = 1''"
      "wChunkTotalNums (wait_sync_meta (metaDB w0) ! 0) = 1" "sourceCalls w0 = []"
    using m l f c by auto
  from planTable_whole_table_chunk [OF out p5 s5 nf disjI2 [OF e5],
      where globalSCN = 7 and partitionTables = "[]" and tableNameRule = Map.empty]
  obtain w5 chunk5 where b:
      "planTable demoEnvRows demoCfg 7 [] Map.empty True (0, ''t'') ?w = (Inr (), w5)"
      "full_sync_meta (metaDB w5) = [chunk5]" "fChunkDetailS chunk5 = ''1 = 1''"
      "wChunkTotalNums (wait_sync_meta (metaDB w5) ! 0) = 1"
    using m l f by auto
  from out p0 s0 s5 e5 a b show ?thesis by blast
qed

lemmas plan_eval =
  planTable_def Let_def andThen_def liftE_def raise_def metaExec_def metaQuery_def
  startChunkTask_def closeChunkTask_def createChunkByRowID_def getTableChunksByRowID_def
  logCall_def adjustTableSelectColumn_def chunkTaskName_def Itoa_def natDigits.simps
  digitChar_def IsContainString_def CreateFullSyncMetaAndUpdateWaitSyncMeta_def
  BatchCreateFullSyncMetaAndUpdateWaitSyncMeta_def chunkRow_def

text \<open>
  C8 fails on the code: on a table with five rows by the statistics, whose splitter
  returns no chunk, planning returns normally and the chunk-creation task it started is
  still open, no call to close it having been made; when the splitter's chunking call
  fails, planning returns that error and the task is open as well.
\<close>

theorem planTable_task_left_open:
  "fst (planTable demoEnvRows demoCfg 7 [] Map.empty True (0, ''t'')
          (demoWorld [demoTable ''T'' WAITING 0] [])) = Inr () \<and>
   chunkTasks (snd (planTable demoEnvRows demoCfg 7 [] Map.empty True (0, ''t'')
          (demoWorld [demoTable ''T'' WAITING 0] []))) = [''SRC_T_TASK0''] \<and>
   sourceCalls (snd (planTable demoEnvRows demoCfg 7 [] Map.empty True (0, ''t'')
          (demoWorld [demoTable ''T'' WAITING 0] [])))
     = [StartTask ''SRC_T_TASK0'', CreateChunks ''SRC_T_TASK0'', FetchChunks ''SRC_T_TASK0''] \<and>
   fst (planTable demoEnvSplitFails demoCfg 7 [] Map.empty True (0, ''t'')
          (demoWorld [demoTable ''T'' WAITING 0] [])) = Inl (SourceError ''ORA-29494'') \<and>
   chunkTasks (snd (planTable demoEnvSplitFails demoCfg 7 [] Map.empty True (0, ''t'')
          (demoWorld [demoTable ''T'' WAITING 0] []))) = [''SRC_T_TASK0''] \<and>
   sourceCalls (snd (planTable demoEnvSplitFails demoCfg 7 [] Map.empty True (0, ''t'')
          (demoWorld [demoTable ''T'' WAITING 0] [])))
     = [StartTask ''SRC_T_TASK0'', CreateChunks ''SRC_T_TASK0'']"
  by (simp add: plan_eval demo_eval demoEnvRows_def demoEnvSplitFails_def projection_eval
        tableKey_def tableMatchW_def schemaMatchW_def StringUPPER_def canonF_def)

section \<open>Groups of tasks\<close>






section \<open>The reset of a run without checkpoint\<close>

lemma canonW_placeholderRow: "canonW (placeholderRow cfg t) = placeholderRow cfg t"
  by (simp add: canonW_def placeholderRow_def StringUPPER_idem)

lemma resetTable_step:
  assumes "metaFaults w = []"
  shows "\<exists>w' new. resetTable cfg t w = (Inr (), w') \<and> metaFaults w' = [] \<and>
           sourceCalls w' = sourceCalls w \<and> chunkTasks w' = chunkTasks w \<and>
           full_sync_meta (metaDB w') = full_sync_meta (metaDB w) \<and>
           wait_sync_meta (metaDB w') =
             filter (\<lambda>r. \<not> (tableMatchW ((schemaKey cfg)\<lparr>kTableNameS := t\<rparr>) r \<and> wTaskStatus r = WAITING))
               (wait_sync_meta (metaDB w)) @ new \<and>
           (new = [] \<or> new = [placeholderRow cfg t])"
proof -
  let ?k = "(schemaKey cfg)\<lparr>kTableNameS := t\<rparr>"
  let ?w1 = "w\<lparr>metaDB := DeleteWaitSyncMeta ?k (metaDB w)\<rparr>"
  have nf1: "metaFaults ?w1 = []" using assms by simp
  show ?thesis
  proof (cases "length (DetailWaitSyncMeta ?k None (metaDB ?w1)) = 0")
    case True
    then have "resetTable cfg t w =
        (Inr (), ?w1\<lparr>metaDB := CreateWaitSyncMeta (placeholderRow cfg t) (metaDB ?w1)\<rparr>)"
      using assms
      by (simp add: resetTable_def recordTable_def andThen_def metaExec_nofault metaQuery_nofault)
    then show ?thesis
      using assms
      by (intro exI [of _ "?w1\<lparr>metaDB := CreateWaitSyncMeta (placeholderRow cfg t) (metaDB ?w1)\<rparr>"]
                exI [of _ "[placeholderRow cfg t]"])
         (simp add: CreateWaitSyncMeta_def DeleteWaitSyncMeta_def canonW_placeholderRow)
  next
    case False
    then have "resetTable cfg t w = (Inr (), ?w1)"
      using assms
      by (simp add: resetTable_def recordTable_def andThen_def metaExec_nofault metaQuery_nofault
            ok_def)
    then show ?thesis
      using assms
      by (intro exI [of _ ?w1] exI [of _ "[]"]) (simp add: DeleteWaitSyncMeta_def)
  qed
qed

lemma resetLoop_effect:
  assumes "metaFaults w = []"
  shows "\<exists>w' fresh. forEach (resetTable cfg) ts w = (Inr (), w') \<and> metaFaults w' = [] \<and>
           sourceCalls w' = sourceCalls w \<and> chunkTasks w' = chunkTasks w \<and>
           full_sync_meta (metaDB w') = full_sync_meta (metaDB w) \<and>
           wait_sync_meta (metaDB w') =
             filter (\<lambda>r. \<not> (wTaskStatus r = WAITING \<and>
                              (\<exists>t \<in> set ts. tableMatchW ((schemaKey cfg)\<lparr>kTableNameS := t\<rparr>) r)))
               (wait_sync_meta (metaDB w)) @ fresh \<and>
           (\<forall>r \<in> set fresh. \<exists>t \<in> set ts. r = placeholderRow cfg t)"
  using assms
proof (induction ts arbitrary: w)
  case Nil
  then show ?case by simp
next
  case (Cons t ts)
  from resetTable_step [OF Cons.prems, of cfg t] obtain w1 new where
      step: "resetTable cfg t w = (Inr (), w1)" and nf1: "metaFaults w1 = []"
      and sc1: "sourceCalls w1 = sourceCalls w" and ct1: "chunkTasks w1 = chunkTasks w"
      and full1: "full_sync_meta (metaDB w1) = full_sync_meta (metaDB w)"
      and wait1: "wait_sync_meta (metaDB w1) =
             filter (\<lambda>r. \<not> (tableMatchW ((schemaKey cfg)\<lparr>kTableNameS := t\<rparr>) r \<and> wTaskStatus r = WAITING))
               (wait_sync_meta (metaDB w)) @ new"
      and new: "new = [] \<or> new = [placeholderRow cfg t]"
    by blast
  from Cons.IH [OF nf1] obtain w' fresh where
      loop: "forEach (resetTable cfg) ts w1 = (Inr (), w')" and nf': "metaFaults w' = []"
      and sc': "sourceCalls w' = sourceCalls w1" and ct': "chunkTasks w' = chunkTasks w1"
      and full': "full_sync_meta (metaDB w') = full_sync_meta (metaDB w1)"
      and wait': "wait_sync_meta (metaDB w') =
             filter (\<lambda>r. \<not> (wTaskStatus r = WAITING \<and>
                              (\<exists>t \<in> set ts. tableMatchW ((schemaKey cfg)\<lparr>kTableNameS := t\<rparr>) r)))
               (wait_sync_meta (metaDB w1)) @ fresh"
      and fresh: "\<forall>r \<in> set fresh. \<exists>t \<in> set ts. r = placeholderRow cfg t"
    by blast
  let ?P = "\<lambda>r. \<not> (wTaskStatus r = WAITING \<and>
                  (\<exists>t \<in> set ts. tableMatchW ((schemaKey cfg)\<lparr>kTableNameS := t\<rparr>) r))"
  let ?fresh = "filter ?P new @ fresh"
  have run: "forEach (resetTable cfg) (t # ts) w = (Inr (), w')"
    using step loop by simp
  have waitfinal: "wait_sync_meta (metaDB w') =
             filter (\<lambda>r. \<not> (wTaskStatus r = WAITING \<and>
                              (\<exists>u \<in> set (t # ts). tableMatchW ((schemaKey cfg)\<lparr>kTableNameS := u\<rparr>) r)))
               (wait_sync_meta (metaDB w)) @ ?fresh"
    unfolding wait' wait1 by (auto intro: filter_cong)
  have freshfinal: "\<forall>r \<in> set ?fresh. \<exists>u \<in> set (t # ts). r = placeholderRow cfg u"
    using new fresh by auto
  from run nf' sc' sc1 ct' ct1 full' full1 waitfinal freshfinal show ?case
    by (intro exI [of _ w'] exI [of _ ?fresh]) simp
qed

text \<open>
  What the reset block does when the metadata store answers: it removes the chunk rows
  that match the key it passes, whose task mode is the configured one in upper case;
  it removes every WAITING table row of a configured table, the rows it leaves behind
  for them being fresh placeholders; every SUCCESS table row is kept as it was.
\<close>

lemma csvReset_effect:
  assumes nofault: "metaFaults w = []"
  shows "\<exists>w' fresh.
           csvReset cfg exporters w = (Inr (), w') \<and>
           full_sync_meta (metaDB w') =
             filter (\<lambda>r. \<not> schemaMatchF ((schemaKey cfg)\<lparr>kTaskMode := StringUPPER (cfgTaskMode cfg)\<rparr>) r)
               (full_sync_meta (metaDB w)) \<and>
           (\<forall>r \<in> set (full_sync_meta (metaDB w')).
              \<not> schemaMatchF ((schemaKey cfg)\<lparr>kTaskMode := StringUPPER (cfgTaskMode cfg)\<rparr>) r) \<and>
           wait_sync_meta (metaDB w') =
             filter (\<lambda>r. \<not> (wTaskStatus r = WAITING \<and>
                              (\<exists>t \<in> set exporters. tableMatchW ((schemaKey cfg)\<lparr>kTableNameS := t\<rparr>) r)))
               (wait_sync_meta (metaDB w)) @ fresh \<and>
           (\<forall>r \<in> set fresh. \<exists>t \<in> set exporters. r = placeholderRow cfg t) \<and>
           (\<forall>r \<in> set (wait_sync_meta (metaDB w)).
              wTaskStatus r = SUCCESS \<longrightarrow> r \<in> set (wait_sync_meta (metaDB w')))"
proof -
  let ?k = "(schemaKey cfg)\<lparr>kTaskMode := StringUPPER (cfgTaskMode cfg)\<rparr>"
  let ?w1 = "w\<lparr>metaDB := DeleteFullSyncMetaBySchemaSyncMode ?k (metaDB w)\<rparr>"
  have nf1: "metaFaults ?w1 = []" using nofault by simp
  from resetLoop_effect [OF nf1, of cfg exporters] obtain w' fresh where
      loop: "forEach (resetTable cfg) exporters ?w1 = (Inr (), w')"
      and full': "full_sync_meta (metaDB w') = full_sync_meta (metaDB ?w1)"
      and wait': "wait_sync_meta (metaDB w') =
             filter (\<lambda>r. \<not> (wTaskStatus r = WAITING \<and>
                              (\<exists>t \<in> set exporters. tableMatchW ((schemaKey cfg)\<lparr>kTableNameS := t\<rparr>) r)))
               (wait_sync_meta (metaDB ?w1)) @ fresh"
      and fresh: "\<forall>r \<in> set fresh. \<exists>t \<in> set exporters. r = placeholderRow cfg t"
    by blast
  have run: "csvReset cfg exporters w = (Inr (), w')"
    using nofault loop by (simp add: csvReset_def andThen_def metaExec_nofault)
  have full: "full_sync_meta (metaDB w') = filter (\<lambda>r. \<not> schemaMatchF ?k r) (full_sync_meta (metaDB w))"
    using full' by (simp add: DeleteFullSyncMetaBySchemaSyncMode_def)
  have wait: "wait_sync_meta (metaDB w') =
             filter (\<lambda>r. \<not> (wTaskStatus r = WAITING \<and>
                              (\<exists>t \<in> set exporters. tableMatchW ((schemaKey cfg)\<lparr>kTableNameS := t\<rparr>) r)))
               (wait_sync_meta (metaDB w)) @ fresh"
    using wait' by (simp add: DeleteFullSyncMetaBySchemaSyncMode_def)
  have keep: "\<forall>r \<in> set (wait_sync_meta (metaDB w)).
              wTaskStatus r = SUCCESS \<longrightarrow> r \<in> set (wait_sync_meta (metaDB w'))"
    unfolding wait by auto
  have gone: "\<forall>r \<in> set (full_sync_meta (metaDB w')). \<not> schemaMatchF ?k r"
    unfolding full by simp
  from run full gone wait fresh keep show ?thesis
    by (intro exI [of _ w'] exI [of _ fresh]) simp
qed

section \<open>The task of one chunk\<close>

lemma metaExec_error: "metaExec f w = (Inl e, w') \<Longrightarrow> e = MetaError"
  by (auto simp: metaExec_def split: list.splits if_splits)

lemma recordChunkFailed_nofault:
  "metaFaults w = [] \<Longrightarrow>
   recordChunkFailed env m err w =
     (Inr (), w\<lparr>metaDB := UpdateFullSyncMetaChunk (chunkKey m) (fChunkDetailS m)
        (\<lambda>r. r\<lparr>fTaskStatus := FAILED, fInfoDetail := metaString env m, fErrorDetail := errorText err\<rparr>)
        (metaDB w)\<rparr>)"
  by (simp add: recordChunkFailed_def metaExec_nofault)

lemma wrapErr_recordChunkFailed_fst:
  "fst (wrapErr msg (recordChunkFailed env m err) w) = Inl e \<Longrightarrow> fromMetaStore e"
  by (cases "recordChunkFailed env m err w")
     (auto simp: wrapErr_def recordChunkFailed_def split: sum.splits dest: metaExec_error)

lemma wrapErr_recordChunkFailed_error:
  "wrapErr msg (recordChunkFailed env m err) w = (Inl e, w') \<Longrightarrow> fromMetaStore e"
  using wrapErr_recordChunkFailed_fst [of msg env m err w e] by simp

lemma recordChunkSuccess_fst:
  "fst (recordChunkSuccess m w) = Inl e \<Longrightarrow> fromMetaStore e"
  by (cases "recordChunkSuccess m w") (auto simp: recordChunkSuccess_def dest: metaExec_error)

text \<open>
  Once the cursor is open the task behaves as C3 says: an error it returns comes from
  the metadata store, and a column-metadata failure is recorded and skipped.
\<close>

lemma chunkTask_open_cursor_errors:
  assumes "QueryContext env (chunkQuerySQL m) = Inr rowsResult"
    and "fst (chunkTask env oracleDBCharacterSet m w) = Inl e"
  shows "fromMetaStore e"
proof (cases rowsResult)
  case (OpenRows columnFields closeResult)
  with assms show ?thesis
    by (auto simp: chunkTask_def Let_def split: option.splits
          dest: wrapErr_recordChunkFailed_fst recordChunkSuccess_fst)
next
  case (ClosedRows err)
  with assms show ?thesis
    by (auto simp: chunkTask_def Let_def andThen_def cursorClose_def
          split: prod.splits sum.splits dest: wrapErr_recordChunkFailed_error)
qed

lemma chunkTask_column_failure:
  assumes "QueryContext env (chunkQuerySQL m) = Inr rowsResult"
    and "Columns rowsResult = Inl err" and "metaFaults w = []"
  shows "fst (chunkTask env oracleDBCharacterSet m w) = Inr () \<and>
         metaDB (snd (chunkTask env oracleDBCharacterSet m w)) =
           UpdateFullSyncMetaChunk (chunkKey m) (fChunkDetailS m)
             (\<lambda>r. r\<lparr>fTaskStatus := FAILED, fInfoDetail := metaString env m,
                    fErrorDetail := errorText err\<rparr>) (metaDB w)"
proof (cases rowsResult)
  case (OpenRows columnFields closeResult)
  with assms show ?thesis by simp
next
  case (ClosedRows err')
  with assms show ?thesis
    by (simp add: chunkTask_def Let_def andThen_def wrapErr_def cursorClose_def
          recordChunkFailed_nofault logCall_def)
qed

text \<open>
  When the cursor cannot be opened, the chunk's row is updated to FAILED and then the
  nil \<open>rowsResult\<close> is dereferenced.
\<close>

lemma chunkTask_open_failure:
  assumes "QueryContext env (chunkQuerySQL m) = Inl err" and "metaFaults w = []"
  shows "chunkTask env oracleDBCharacterSet m w =
           (Inl NilDereference,
            w\<lparr>sourceCalls := sourceCalls w @ [Query (chunkQuerySQL m)],
               metaDB := UpdateFullSyncMetaChunk (chunkKey m) (fChunkDetailS m)
                 (\<lambda>r. r\<lparr>fTaskStatus := FAILED, fInfoDetail := metaString env m,
                        fErrorDetail := errorText err\<rparr>) (metaDB w)\<rparr>)"
  using assms
  by (simp add: chunkTask_def Let_def andThen_def wrapErr_def raise_def
        recordChunkFailed_nofault logCall_def)

lemmas chunk_eval =
  chunkTask_def Let_def andThen_def wrapErr_def raise_def cursorClose_def recordChunkFailed_def
  recordChunkSuccess_def metaExec_def metaQuery_def logCall_def UpdateFullSyncMetaChunk_def
  chunkQuerySQL_def StringsBuilder_def

text \<open>
  C3 fails on the code at a cursor-open failure. For the chunk \<open>1 = 1\<close> of table \<open>T\<close>
  whose query the source rejects with ORA-00936, the task updates the chunk's row to
  FAILED with its info and error strings and then, instead of returning without error,
  ends in the nil dereference of \<open>rowsResult.Close()\<close>.
\<close>

theorem chunkTask_open_failure_panics:
  "chunkTask (demoCursorEnv (Inl (SourceError ''ORA-00936''))) ''AL32UTF8''
       (demoChunk ''1 = 1'' WAITING)
       (demoWorld [demoTable ''T'' RUNNING 1] [demoChunk ''1 = 1'' WAITING])
     = (Inl NilDereference,
        (demoWorld [demoTable ''T'' RUNNING 1]
           [(demoChunk ''1 = 1'' FAILED)\<lparr>fInfoDetail := ''1 = 1'', fErrorDetail := ''ORA-00936''\<rparr>])
          \<lparr>sourceCalls := [Query ''SELECT ID FROM SRC.T WHERE 1 = 1'']\<rparr>)"
proof -
  have q: "QueryContext (demoCursorEnv (Inl (SourceError ''ORA-00936'')))
             (chunkQuerySQL (demoChunk ''1 = 1'' WAITING)) = Inl (SourceError ''ORA-00936'')"
    by (simp add: demoCursorEnv_def)
  have nf: "metaFaults (demoWorld [demoTable ''T'' RUNNING 1] [demoChunk ''1 = 1'' WAITING]) = []"
    by (simp add: demoWorld_def)
  show ?thesis
    unfolding chunkTask_open_failure [OF q nf]
    by (simp add: meta_eval demo_eval demoCursorEnv_def UpdateFullSyncMetaChunk_def
          chunkQuerySQL_def StringsBuilder_def)
qed

section \<open>The task of one table\<close>

text \<open>
  The closing step of a table's task: it either fails with an error of the metadata
  store and leaves the store as it was, or it returns normally and then: if the store
  counts no FAILED chunk row of the table, the SUCCESS chunk rows of the table are
  gone, every other chunk row is kept, and the table's row is SUCCESS with
  \<open>ChunkSuccessNums\<close> the number of SUCCESS chunk rows and \<open>ChunkFailedNums = 0\<close>;
  otherwise no chunk row is deleted and the table's row is FAILED with the two counts.
\<close>

lemma finishTable_outcome:
  "(case finishTable cfg t w of
      (Inl e, w') \<Rightarrow> fromMetaStore e \<and> metaDB w' = metaDB w
    | (Inr u, w') \<Rightarrow>
        (if CountsErrorFullSyncMeta (tableKey cfg t) FAILED (metaDB w) = 0
         then full_sync_meta (metaDB w') =
                filter (\<lambda>r. \<not> (tableMatchF (tableKey cfg t) r \<and> fTaskStatus r = SUCCESS))
                  (full_sync_meta (metaDB w)) \<and>
              wait_sync_meta (metaDB w') =
                map (\<lambda>r. if tableMatchW (tableKey cfg t) r
                          then r\<lparr>wTaskStatus := SUCCESS,
                                 wChunkSuccessNums :=
                                   int (length (DetailFullSyncMeta (tableKey cfg t) SUCCESS (metaDB w))),
                                 wChunkFailedNums := 0\<rparr>
                          else r) (wait_sync_meta (metaDB w))
         else full_sync_meta (metaDB w') = full_sync_meta (metaDB w) \<and>
              wait_sync_meta (metaDB w') =
                map (\<lambda>r. if tableMatchW (tableKey cfg t) r
                          then r\<lparr>wTaskStatus := FAILED,
                                 wChunkSuccessNums :=
                                   int (length (DetailFullSyncMeta (tableKey cfg t) SUCCESS (metaDB w))),
                                 wChunkFailedNums :=
                                   CountsErrorFullSyncMeta (tableKey cfg t) FAILED (metaDB w)\<rparr>
                          else r) (wait_sync_meta (metaDB w)))) \<and>
   (metaFaults w = [] \<longrightarrow> fst (finishTable cfg t w) = Inr ())"
proof -
  let ?k = "tableKey cfg t"
  let ?cnt = "CountsErrorFullSyncMeta ?k FAILED"
  let ?det = "DetailFullSyncMeta ?k SUCCESS"
  from metaQuery_cases [of ?cnt w] show ?thesis
  proof (elim disjE exE conjE)
    fix w1 assume "metaQuery ?cnt w = (Inl MetaError, w1)" "metaDB w1 = metaDB w"
    then show ?thesis
      by (auto simp: finishTable_def andThen_def wrapErr_def metaQuery_def split: list.splits)
  next
    fix w1 assume q1: "metaQuery ?cnt w = (Inr (?cnt (metaDB w)), w1)"
      and db1: "metaDB w1 = metaDB w"
      and f1: "metaFaults w = [] \<longrightarrow> metaFaults w1 = []"
    from metaQuery_cases [of ?det w1] show ?thesis
    proof (elim disjE exE conjE)
      fix w2 assume "metaQuery ?det w1 = (Inl MetaError, w2)" "metaDB w2 = metaDB w1"
      with q1 db1 f1 show ?thesis
        by (auto simp: finishTable_def andThen_def wrapErr_def metaQuery_def split: list.splits)
    next
      fix w2 assume q2: "metaQuery ?det w1 = (Inr (?det (metaDB w1)), w2)"
        and db2: "metaDB w2 = metaDB w1"
        and f2: "metaFaults w1 = [] \<longrightarrow> metaFaults w2 = []"
      show ?thesis
      proof (cases "?cnt (metaDB w) = 0")
        case True
        let ?f = "DeleteTableFullSyncMetaAndUpdateWaitSyncMeta ?k SUCCESS
                    (int (length (?det (metaDB w)))) 0"
        have fin: "finishTable cfg t w = metaExec ?f w2"
          using q1 q2 db1 True by (simp add: finishTable_def andThen_def wrapErr_def)
        from metaExec_cases [of ?f w2] show ?thesis
          using fin db1 db2 f1 f2 True
          by (auto simp: DeleteTableFullSyncMetaAndUpdateWaitSyncMeta_def metaExec_def)
      next
        case False
        let ?f = "UpdateWaitSyncMeta ?k (\<lambda>r. r\<lparr>wTaskStatus := FAILED,
                          wChunkSuccessNums := int (length (?det (metaDB w))),
                          wChunkFailedNums := ?cnt (metaDB w)\<rparr>)"
        have fin: "finishTable cfg t w = metaExec ?f w2"
          using q1 q2 db1 False by (simp add: finishTable_def andThen_def wrapErr_def)
        from metaExec_cases [of ?f w2] show ?thesis
          using fin db1 db2 f1 f2 False
          by (auto simp: UpdateWaitSyncMeta_def metaExec_def)
      qed
    qed
  qed
qed

text \<open>
  The table's task reaches that closing step exactly when the group of its chunk tasks
  reports no error.
\<close>

lemma tableTask_steps:
  assumes "metaFaults w = []"
  shows "tableTask env cfg oracleDBCharacterSet t w =
           (case groupGo (chunkTask env oracleDBCharacterSet)
                   (DetailFullSyncMeta (tableKey cfg t) WAITING
                      (UpdateWaitSyncMeta ((tableKey cfg t)\<lparr>kSchemaNameS := cfgOracleSchemaName cfg\<rparr>)
                         (\<lambda>r. r\<lparr>wTaskStatus := RUNNING\<rparr>) (metaDB w)) @
                    DetailFullSyncMeta (tableKey cfg t) FAILED
                      (UpdateWaitSyncMeta ((tableKey cfg t)\<lparr>kSchemaNameS := cfgOracleSchemaName cfg\<rparr>)
                         (\<lambda>r. r\<lparr>wTaskStatus := RUNNING\<rparr>) (metaDB w)))
                   None
                   (w\<lparr>metaDB := UpdateWaitSyncMeta
                      ((tableKey cfg t)\<lparr>kSchemaNameS := cfgOracleSchemaName cfg\<rparr>)
                      (\<lambda>r. r\<lparr>wTaskStatus := RUNNING\<rparr>) (metaDB w)\<rparr>) of
              (None, w2) \<Rightarrow> finishTable cfg t w2
            | (Some e, w2) \<Rightarrow> (Inl e, w2))"
  using assms
  by (simp add: tableTask_def andThen_def metaExec_nofault metaQuery_nofault groupWait_def
        split: prod.splits option.splits)

text \<open>
  C2 fails on the code for a table whose chunk fails at cursor open. Table \<open>T\<close> is
  RUNNING with the one chunk \<open>1 = 1\<close>, and the source rejects the chunk's query. The
  chunk's row becomes FAILED, so every chunk of the table is terminal and one is
  FAILED; but the chunk task ends in the nil dereference, the closing step is never
  reached, and the table's row stays RUNNING with its counters untouched, both for the
  table's task and for \<open>csvPartSyncTable\<close>.
\<close>

theorem tableTask_open_failure_leaves_running:
  "tableTask (demoCursorEnv (Inl (SourceError ''ORA-00936''))) demoCfg ''AL32UTF8'' ''t''
       (demoWorld [demoTable ''T'' RUNNING 1] [demoChunk ''1 = 1'' WAITING])
     = (Inl NilDereference,
        (demoWorld [demoTable ''T'' RUNNING 1]
           [(demoChunk ''1 = 1'' FAILED)\<lparr>fInfoDetail := ''1 = 1'', fErrorDetail := ''ORA-00936''\<rparr>])
          \<lparr>sourceCalls := [Query ''SELECT ID FROM SRC.T WHERE 1 = 1'']\<rparr>) \<and>
   csvPartSyncTable (demoCursorEnv (Inl (SourceError ''ORA-00936''))) demoCfg [''t'']
       (demoWorld [demoTable ''T'' RUNNING 1] [demoChunk ''1 = 1'' WAITING])
     = (Inl NilDereference,
        (demoWorld [demoTable ''T'' RUNNING 1]
           [(demoChunk ''1 = 1'' FAILED)\<lparr>fInfoDetail := ''1 = 1'', fErrorDetail := ''ORA-00936''\<rparr>])
          \<lparr>sourceCalls := [Query ''SELECT ID FROM SRC.T WHERE 1 = 1'']\<rparr>)"
proof -
  have task: "tableTask (demoCursorEnv (Inl (SourceError ''ORA-00936''))) demoCfg ''AL32UTF8'' ''t''
       (demoWorld [demoTable ''T'' RUNNING 1] [demoChunk ''1 = 1'' WAITING])
     = (Inl NilDereference,
        (demoWorld [demoTable ''T'' RUNNING 1]
           [(demoChunk ''1 = 1'' FAILED)\<lparr>fInfoDetail := ''1 = 1'', fErrorDetail := ''ORA-00936''\<rparr>])
          \<lparr>sourceCalls := [Query ''SELECT ID FROM SRC.T WHERE 1 = 1'']\<rparr>)"
    by (simp add: tableTask_def groupWait_def chunk_eval DetailFullSyncMeta_def
          UpdateWaitSyncMeta_def meta_eval demo_eval demoCursorEnv_def)
  have cs: "GetOracleDBCharacterSet (demoCursorEnv (Inl (SourceError ''ORA-00936''))) = Inr ''AL32UTF8''"
    by (simp add: demoCursorEnv_def demoEnv_def)
  show ?thesis
    by (simp only: task csvPartSyncTable_def andThen_def liftE_def cs groupGo.simps
          groupWait_def split_conv sum.case option.case simp_thms if_True)
qed

section \<open>The planner without checkpoint\<close>

lemmas prepare_eval =
  csvPrepare_def csvReap_def csvFailFast_def csvWaiting_def recordTable_def andThen_def liftE_def
  ok_def raise_def metaQuery_def metaExec_def Let_def DetailWaitSyncMeta_def
  DetailWaitSyncMetaSuccessTables_def CountsErrWaitSyncMetaBySchema_def
  FilterDifferenceStringItems_def QueryWaitSyncMetaByPartTask_def
  CountsFullSyncMetaByTaskTable_def



section \<open>The check of the interrupted tables\<close>

lemma sourceUntouched_ok: "sourceUntouched (ok a)"
  by (simp add: sourceUntouched_def ok_def)

lemma sourceUntouched_raise: "sourceUntouched (raise e)"
  by (simp add: sourceUntouched_def raise_def)

lemma sourceUntouched_liftE: "sourceUntouched (liftE r)"
  by (simp add: sourceUntouched_def liftE_def)

lemma sourceUntouched_metaQuery: "sourceUntouched (metaQuery q)"
  by (auto simp: sourceUntouched_def metaQuery_def split: list.splits)

lemma sourceUntouched_metaExec: "sourceUntouched (metaExec f)"
  by (auto simp: sourceUntouched_def metaExec_def split: list.splits)

lemma sourceUntouched_andThen:
  assumes "sourceUntouched m" and "\<And>a. sourceUntouched (f a)"
  shows "sourceUntouched (andThen m f)"
  unfolding sourceUntouched_def
proof
  fix w
  obtain r w1 where m: "m w = (r, w1)" by (cases "m w")
  with assms(1) have w1: "sourceCalls w1 = sourceCalls w \<and> chunkTasks w1 = chunkTasks w"
    by (auto simp: sourceUntouched_def dest: spec [of _ w])
  show "sourceCalls (snd (andThen m f w)) = sourceCalls w \<and>
        chunkTasks (snd (andThen m f w)) = chunkTasks w"
  proof (cases r)
    case (Inl e)
    with m w1 show ?thesis by (simp add: andThen_def)
  next
    case (Inr a)
    from assms(2) [of a] have "sourceCalls (snd (f a w1)) = sourceCalls w1 \<and>
        chunkTasks (snd (f a w1)) = chunkTasks w1"
      by (simp add: sourceUntouched_def)
    with Inr m w1 show ?thesis by (simp add: andThen_def)
  qed
qed

lemma sourceUntouched_if:
  "sourceUntouched m \<Longrightarrow> sourceUntouched n \<Longrightarrow> sourceUntouched (if c then m else n)"
  by simp

lemma sourceUntouched_forEach:
  assumes "\<And>x. sourceUntouched (body x)"
  shows "sourceUntouched (forEach body xs)"
  unfolding sourceUntouched_def
proof
  fix w
  show "sourceCalls (snd (forEach body xs w)) = sourceCalls w \<and>
        chunkTasks (snd (forEach body xs w)) = chunkTasks w"
  proof (induction xs arbitrary: w)
    case Nil
    then show ?case by simp
  next
    case (Cons x xs)
    obtain r w1 where b: "body x w = (r, w1)" by (cases "body x w")
    with assms [of x] have w1: "sourceCalls w1 = sourceCalls w \<and> chunkTasks w1 = chunkTasks w"
      by (auto simp: sourceUntouched_def dest: spec [of _ w])
    show ?case
    proof (cases r)
      case (Inl e)
      with b w1 show ?thesis by simp
    next
      case (Inr u)
      with b w1 Cons.IH [of w1] show ?thesis by simp
    qed
  qed
qed

lemmas sourceUntouched_intros =
  sourceUntouched_andThen sourceUntouched_if sourceUntouched_forEach sourceUntouched_ok
  sourceUntouched_raise sourceUntouched_liftE sourceUntouched_metaQuery sourceUntouched_metaExec

lemma sourceUntouched_recordTable: "sourceUntouched (recordTable cfg k tableName)"
  unfolding recordTable_def by (intro sourceUntouched_intros)

lemma sourceUntouched_csvReset: "sourceUntouched (csvReset cfg exporters)"
  unfolding csvReset_def resetTable_def
  by (intro sourceUntouched_intros sourceUntouched_recordTable)

lemma sourceUntouched_csvPrepare: "sourceUntouched (csvPrepare env cfg)"
  unfolding csvPrepare_def csvReap_def csvFailFast_def csvWaiting_def Let_def
  by (intro sourceUntouched_intros sourceUntouched_recordTable sourceUntouched_csvReset)

lemma classifyLoop_nofault:
  assumes "metaFaults w = []"
  shows "classifyLoop ts partSyncTables panicTblFullSlice w =
           (Inr (partSyncTables @ map wTableNameS (filter (chunkCountConsistent (metaDB w)) ts),
                 panicTblFullSlice @
                   map wTableNameS (filter (\<lambda>t. \<not> chunkCountConsistent (metaDB w) t) ts)), w)"
  using assms
  by (induction ts arbitrary: partSyncTables panicTblFullSlice)
     (simp_all add: metaQuery_nofault chunkCountConsistent_def)

lemma csvClassify_nofault:
  assumes "metaFaults w = []"
  shows "csvClassify cfg w =
           (Inr (map wTableNameS (filter (chunkCountConsistent (metaDB w))
                    (QueryWaitSyncMetaByPartTask (schemaKey cfg) RUNNING (metaDB w))),
                 map wTableNameS (filter (\<lambda>t. \<not> chunkCountConsistent (metaDB w) t)
                    (QueryWaitSyncMetaByPartTask (schemaKey cfg) RUNNING (metaDB w)))), w)"
  using assms
  by (simp add: csvClassify_def andThen_def metaQuery_nofault classifyLoop_nofault)

section \<open>No replanning\<close>

lemma planKept_refl: "planKept k db db"
  by (simp add: planKept_def)

lemma planKept_trans: "planKept k db db' \<Longrightarrow> planKept k db' db'' \<Longrightarrow> planKept k db db''"
  by (auto simp: planKept_def intro: subseq_order.trans)

lemma filter_map_update:
  assumes "\<And>r. P (g r) = P r"
  shows "filter P (map g xs) = map g (filter P xs)"
  using assms by (induction xs) auto

lemma planKept_UpdateFullSyncMetaChunk:
  assumes "\<And>r. chunkPlan (upd r) = chunkPlan r" and "\<And>r. tableMatchF k (upd r) = tableMatchF k r"
  shows "planKept k db (UpdateFullSyncMetaChunk k' chunk upd db)"
proof -
  let ?g = "\<lambda>r. if tableMatchF k' r \<and> fChunkDetailS r = chunk then upd r else r"
  have "filter (tableMatchF k) (map ?g (full_sync_meta db)) = map ?g (filter (tableMatchF k) (full_sync_meta db))"
    by (rule filter_map_update) (simp add: assms(2))
  moreover have "\<And>ys. map chunkPlan (map ?g ys) = map chunkPlan ys"
    by (simp add: assms(1))
  ultimately show ?thesis
    by (simp add: planKept_def UpdateFullSyncMetaChunk_def del: map_map)
qed

lemma planKept_wait_update:
  assumes "\<And>r. tablePlan (upd r) = tablePlan r" and "\<And>r. tableMatchW k (upd r) = tableMatchW k r"
  shows "map tablePlan (filter (tableMatchW k) (map (\<lambda>r. if c r then upd r else r) ws))
           = map tablePlan (filter (tableMatchW k) ws)"
proof -
  let ?g = "\<lambda>r. if c r then upd r else r"
  have "filter (tableMatchW k) (map ?g ws) = map ?g (filter (tableMatchW k) ws)"
    by (rule filter_map_update) (simp add: assms(2))
  moreover have "\<And>ys. map tablePlan (map ?g ys) = map tablePlan ys"
    by (simp add: assms(1))
  ultimately show ?thesis by (simp del: map_map)
qed

lemma planKept_UpdateWaitSyncMeta:
  assumes "\<And>r. tablePlan (upd r) = tablePlan r" and "\<And>r. tableMatchW k (upd r) = tableMatchW k r"
  shows "planKept k db (UpdateWaitSyncMeta k' upd db)"
  using planKept_wait_update [of upd k "tableMatchW k'" "wait_sync_meta db", OF assms]
  by (simp add: planKept_def UpdateWaitSyncMeta_def)

lemma planKept_DeleteTable:
  "planKept k db (DeleteTableFullSyncMetaAndUpdateWaitSyncMeta k' st a b db)"
proof -
  have full: "subseq (map chunkPlan (filter (tableMatchF k)
                 (filter (\<lambda>r. \<not> (tableMatchF k' r \<and> fTaskStatus r = SUCCESS)) (full_sync_meta db))))
               (map chunkPlan (filter (tableMatchF k) (full_sync_meta db)))"
    by (intro subseq_map subseq_filter) simp
  have wait: "map tablePlan (filter (tableMatchW k)
                (map (\<lambda>r. if tableMatchW k' r
                          then r\<lparr>wTaskStatus := st, wChunkSuccessNums := a, wChunkFailedNums := b\<rparr>
                          else r) (wait_sync_meta db)))
              = map tablePlan (filter (tableMatchW k) (wait_sync_meta db))"
    by (rule planKept_wait_update) (simp_all add: tablePlan_def tableMatchW_def schemaMatchW_def)
  from full wait show ?thesis
    by (simp add: planKept_def DeleteTableFullSyncMetaAndUpdateWaitSyncMeta_def)
qed

text \<open>The planner's compound call for another table leaves the table under \<open>k\<close> alone.\<close>

lemma planKept_BatchCreate:
  assumes other: "kTableNameS k' \<noteq> StringUPPER (kTableNameS k)"
    and canon: "StringUPPER (kTableNameS k') = kTableNameS k'"
    and rows: "\<forall>r \<in> set fullMetas. fTableNameS r = kTableNameS k'"
  shows "planKept k db (BatchCreateFullSyncMetaAndUpdateWaitSyncMeta fullMetas n k' scn tot a b p db)"
proof -
  have "\<forall>r \<in> set (map canonF fullMetas). \<not> tableMatchF k r"
    using other canon rows by (auto simp: canonF_def tableMatchF_def)
  then have full: "filter (tableMatchF k) (full_sync_meta db @ map canonF fullMetas)
                     = filter (tableMatchF k) (full_sync_meta db)"
    by (simp add: filter_empty_conv)
  let ?g = "\<lambda>r. if tableMatchW k' r
                 then r\<lparr>wTaskStatus := WAITING, wGlobalScnS := scn, wChunkTotalNums := tot,
                        wChunkSuccessNums := a, wChunkFailedNums := b, wIsPartition := p\<rparr>
                 else r"
  have "\<And>ws. filter (tableMatchW k) (map ?g ws) = filter (tableMatchW k) ws"
  proof -
    fix ws show "filter (tableMatchW k) (map ?g ws) = filter (tableMatchW k) ws"
      using other canon
      by (induction ws) (auto simp: tableMatchW_def schemaMatchW_def)
  qed
  with full show ?thesis
    by (simp add: planKept_def BatchCreateFullSyncMetaAndUpdateWaitSyncMeta_def)
qed

lemma keepsPlan_ok: "keepsPlan k (ok a)"
  by (simp add: keepsPlan_def ok_def planKept_refl)

lemma keepsPlan_raise: "keepsPlan k (raise e)"
  by (simp add: keepsPlan_def raise_def planKept_refl)

lemma keepsPlan_liftE: "keepsPlan k (liftE r)"
  by (simp add: keepsPlan_def liftE_def planKept_refl)

lemma keepsPlan_metaQuery: "keepsPlan k (metaQuery q)"
  by (auto simp: keepsPlan_def metaQuery_def planKept_refl split: list.splits)

lemma keepsPlan_metaExec:
  assumes "\<And>db. planKept k db (f db)"
  shows "keepsPlan k (metaExec f)"
  using assms by (auto simp: keepsPlan_def metaExec_def planKept_refl split: list.splits)

lemma keepsPlan_andThen:
  assumes "keepsPlan k m" and "\<And>a. keepsPlan k (f a)"
  shows "keepsPlan k (andThen m f)"
  unfolding keepsPlan_def
proof
  fix w
  obtain r w1 where m: "m w = (r, w1)" by (cases "m w")
  with assms(1) have w1: "planKept k (metaDB w) (metaDB w1)"
    by (auto simp: keepsPlan_def dest: spec [of _ w])
  show "planKept k (metaDB w) (metaDB (snd (andThen m f w)))"
  proof (cases r)
    case (Inl e)
    with m w1 show ?thesis by (simp add: andThen_def)
  next
    case (Inr a)
    from assms(2) [of a] have "planKept k (metaDB w1) (metaDB (snd (f a w1)))"
      by (simp add: keepsPlan_def)
    with Inr m w1 show ?thesis by (auto simp: andThen_def intro: planKept_trans)
  qed
qed

lemma keepsPlan_wrapErr:
  assumes "keepsPlan k m"
  shows "keepsPlan k (wrapErr msg m)"
  unfolding keepsPlan_def
proof
  fix w
  from assms have "planKept k (metaDB w) (metaDB (snd (m w)))" by (simp add: keepsPlan_def)
  then show "planKept k (metaDB w) (metaDB (snd (wrapErr msg m w)))"
    by (cases "m w") (auto simp: wrapErr_def split: sum.splits)
qed

lemma keepsPlan_if:
  "keepsPlan k m \<Longrightarrow> keepsPlan k n \<Longrightarrow> keepsPlan k (if c then m else n)"
  by simp

lemma keepsPlan_groupGo:
  assumes "\<And>x. x \<in> set xs \<Longrightarrow> keepsPlan k (task x)"
  shows "planKept k (metaDB w) (metaDB (snd (groupGo task xs firstErr w)))"
  using assms
proof (induction xs arbitrary: firstErr w)
  case Nil
  then show ?case by (simp add: planKept_refl)
next
  case (Cons x xs)
  obtain r w1 where t: "task x w = (r, w1)" by (cases "task x w")
  from Cons.prems [of x] t have w1: "planKept k (metaDB w) (metaDB w1)"
    by (auto simp: keepsPlan_def dest: spec [of _ w])
  have rest: "\<And>fe. planKept k (metaDB w1) (metaDB (snd (groupGo task xs fe w1)))"
    using Cons.IH Cons.prems by simp
  show ?case
  proof (cases r)
    case (Inl e)
    with t w1 rest [of "if firstErr = None then Some e else firstErr"] show ?thesis
      by (auto intro: planKept_trans)
  next
    case (Inr u)
    with t w1 rest [of firstErr] show ?thesis by (auto intro: planKept_trans)
  qed
qed

lemma keepsPlan_group:
  assumes "\<And>x. x \<in> set xs \<Longrightarrow> keepsPlan k (task x)"
  shows "keepsPlan k (\<lambda>w. groupWait (groupGo task xs None w))"
  unfolding keepsPlan_def
proof
  fix w
  from keepsPlan_groupGo [of xs k task w None, OF assms]
  show "planKept k (metaDB w) (metaDB (snd (groupWait (groupGo task xs None w))))"
    by (cases "groupGo task xs None w") (auto simp: groupWait_def split: option.splits)
qed

lemma keepsPlan_source:
  assumes "\<And>w. metaDB (snd (m w)) = metaDB w"
  shows "keepsPlan k m"
  using assms by (simp add: keepsPlan_def planKept_refl)

lemma keepsPlanD:
  "keepsPlan k m \<Longrightarrow> metaDB w' = metaDB w \<Longrightarrow> planKept k (metaDB w) (metaDB (snd (m w')))"
  by (auto simp: keepsPlan_def dest: spec [of _ w'])

lemmas keepsPlan_intros =
  keepsPlan_andThen keepsPlan_if keepsPlan_wrapErr keepsPlan_ok keepsPlan_raise keepsPlan_liftE
  keepsPlan_metaQuery

text \<open>The executor keeps the plan of every table.\<close>

lemma keepsPlan_chunkTask: "keepsPlan k (chunkTask env oracleDBCharacterSet m)"
proof -
  have failed: "\<And>err. keepsPlan k (recordChunkFailed env m err)"
    unfolding recordChunkFailed_def
    by (intro keepsPlan_metaExec planKept_UpdateFullSyncMetaChunk)
       (simp_all add: chunkPlan_def tableMatchF_def schemaMatchF_def)
  have success: "keepsPlan k (recordChunkSuccess m)"
    unfolding recordChunkSuccess_def
    by (intro keepsPlan_metaExec planKept_UpdateFullSyncMetaChunk)
       (simp_all add: chunkPlan_def tableMatchF_def schemaMatchF_def)
  have close: "\<And>rows sql. keepsPlan k (cursorClose rows sql)"
    by (rule keepsPlan_source) (simp add: cursorClose_def logCall_def split: option.splits)
  have a: "\<And>msg err. keepsPlan k (andThen (wrapErr msg (recordChunkFailed env m err))
                                      (\<lambda>u. raise NilDereference))"
    by (intro keepsPlan_intros failed)
  have b: "\<And>msg err rows sql. keepsPlan k (andThen (wrapErr msg (recordChunkFailed env m err))
                                      (\<lambda>u. cursorClose rows sql))"
    by (intro keepsPlan_intros failed close)
  have c: "\<And>msg err. keepsPlan k (wrapErr msg (recordChunkFailed env m err))"
    by (intro keepsPlan_intros failed)
  show ?thesis
    unfolding keepsPlan_def
  proof
    fix w
    let ?w1 = "logCall (Query (chunkQuerySQL m)) w"
    let ?w2 = "logCall (WriteCSV (fCSVFile m)) ?w1"
    have db1: "metaDB ?w1 = metaDB w" and db2: "metaDB ?w2 = metaDB w"
      by (simp_all add: logCall_def)
    show "planKept k (metaDB w) (metaDB (snd (chunkTask env oracleDBCharacterSet m w)))"
    proof (cases "QueryContext env (chunkQuerySQL m)")
      case (Inl err)
      with keepsPlanD [OF a db1] show ?thesis by (simp add: chunkTask_def Let_def)
    next
      case (Inr rowsResult)
      show ?thesis
      proof (cases "Columns rowsResult")
        case (Inl err)
        with Inr keepsPlanD [OF b db1] show ?thesis by (simp add: chunkTask_def Let_def)
      next
        case cols: (Inr columnFields)
        show ?thesis
        proof (cases "WriteFile env (fSchemaNameS m) (fTableNameS m) oracleDBCharacterSet
                        (chunkQuerySQL m) (fCSVFile m) columnFields")
          case None
          with Inr cols keepsPlanD [OF success db2] show ?thesis
            by (simp add: chunkTask_def Let_def)
        next
          case (Some errW)
          with Inr cols keepsPlanD [OF c db2] show ?thesis
            by (simp add: chunkTask_def Let_def)
        qed
      qed
    qed
  qed
qed

lemma keepsPlan_finishTable: "keepsPlan k (finishTable cfg t)"
  unfolding finishTable_def
  by (intro keepsPlan_intros keepsPlan_metaExec planKept_DeleteTable planKept_UpdateWaitSyncMeta)
     (simp_all add: tablePlan_def tableMatchW_def schemaMatchW_def)

lemma keepsPlan_tableTask: "keepsPlan k (tableTask env cfg oracleDBCharacterSet t)"
  unfolding tableTask_def
  by (intro keepsPlan_intros keepsPlan_metaExec planKept_UpdateWaitSyncMeta keepsPlan_group
        keepsPlan_chunkTask keepsPlan_finishTable)
     (simp_all add: tablePlan_def tableMatchW_def schemaMatchW_def)

lemma keepsPlan_csvPartSyncTable: "keepsPlan k (csvPartSyncTable env cfg csvPartTables)"
  unfolding csvPartSyncTable_def
  by (intro keepsPlan_intros keepsPlan_group keepsPlan_tableTask)

text \<open>The planner keeps the plan of every table it is not planning.\<close>

lemma fullMetasLoop_rows:
  "r \<in> set (fullMetasLoop mk i chunkRes fullMetas) \<Longrightarrow>
     r \<in> set fullMetas \<or> (\<exists>chunkDetail fileSuffix. r = mk chunkDetail fileSuffix)"
  by (induction chunkRes arbitrary: i fullMetas) (fastforce+)

lemma keepsPlan_planTable:
  assumes other: "StringUPPER (snd job) \<noteq> StringUPPER (kTableNameS k)"
  shows "keepsPlan k (planTable env cfg globalSCN partitionTables tableNameRule oracleCollation job)"
proof -
  have key: "kTableNameS (tableKey cfg (snd job)) \<noteq> StringUPPER (kTableNameS k)"
      "StringUPPER (kTableNameS (tableKey cfg (snd job))) = kTableNameS (tableKey cfg (snd job))"
    using other by (simp_all add: tableKey_def StringUPPER_idem)
  have mk: "\<And>target info isPartition chunkDetail fileSuffix.
      fTableNameS (chunkRow env cfg globalSCN (snd job) target info isPartition chunkDetail fileSuffix)
        = kTableNameS (tableKey cfg (snd job))"
    by (simp add: chunkRow_def tableKey_def)
  have batch: "\<And>target info isPartition chunkRes n scn tot a b p.
      keepsPlan k (metaExec (BatchCreateFullSyncMetaAndUpdateWaitSyncMeta
        (fullMetasLoop (chunkRow env cfg globalSCN (snd job) target info isPartition) 0 chunkRes [])
        n (tableKey cfg (snd job)) scn tot a b p))"
    by (intro keepsPlan_metaExec planKept_BatchCreate key)
       (auto dest!: fullMetasLoop_rows simp: mk)
  have single: "\<And>target info isPartition chunkDetail fileSuffix scn tot a b p.
      keepsPlan k (metaExec (CreateFullSyncMetaAndUpdateWaitSyncMeta
        (chunkRow env cfg globalSCN (snd job) target info isPartition chunkDetail fileSuffix)
        (tableKey cfg (snd job)) scn tot a b p))"
    unfolding CreateFullSyncMetaAndUpdateWaitSyncMeta_def
    by (intro keepsPlan_metaExec planKept_BatchCreate key) (simp add: mk)
  have start: "\<And>name. keepsPlan k (startChunkTask env name)"
    by (rule keepsPlan_source) (simp add: startChunkTask_def logCall_def split: option.splits)
  have create: "\<And>name s t n. keepsPlan k (createChunkByRowID env name s t n)"
    by (rule keepsPlan_source) (simp add: createChunkByRowID_def logCall_def split: option.splits)
  have fetch: "\<And>name. keepsPlan k (getTableChunksByRowID env name)"
    by (rule keepsPlan_source) (simp add: getTableChunksByRowID_def logCall_def)
  have close: "\<And>name. keepsPlan k (closeChunkTask env name)"
    by (rule keepsPlan_source) (simp add: closeChunkTask_def logCall_def split: option.splits)
  show ?thesis
    unfolding planTable_def Let_def
    by (intro keepsPlan_intros batch single start create fetch close)
qed

lemma keepsPlan_initWaitSyncTableRowID:
  assumes "\<And>u. u \<in> set csvWaitTables \<Longrightarrow> StringUPPER u \<noteq> StringUPPER (kTableNameS k)"
  shows "keepsPlan k (initWaitSyncTableRowID env cfg csvWaitTables tableNameRule oracleCollation)"
  unfolding initWaitSyncTableRowID_def
proof (intro keepsPlan_intros keepsPlan_group keepsPlan_planTable)
  fix globalSCN :: nat and partitionTables :: "string list" and job :: "nat \<times> string"
  assume "job \<in> set (enumerate 0 csvWaitTables)"
  then have "snd job \<in> set (map snd (enumerate 0 csvWaitTables))"
    by (simp only: set_map image_eqI)
  then have "snd job \<in> set csvWaitTables"
    by (simp only: map_snd_enumerate)
  then show "StringUPPER (snd job) \<noteq> StringUPPER (kTableNameS k)" by (rule assms)
qed

lemma keepsPlan_csvWaitSyncTable:
  assumes "\<And>u. u \<in> set csvWaitTables \<Longrightarrow> StringUPPER u \<noteq> StringUPPER (kTableNameS k)"
  shows "keepsPlan k (csvWaitSyncTable env cfg csvWaitTables tableNameRule oracleCollation)"
  unfolding csvWaitSyncTable_def
  by (intro keepsPlan_intros keepsPlan_initWaitSyncTableRowID keepsPlan_csvPartSyncTable assms)

lemma keepsPlan_csvExecute:
  assumes "\<And>u. u \<in> set waitSyncTables \<Longrightarrow> StringUPPER u \<noteq> StringUPPER (kTableNameS k)"
  shows "keepsPlan k (csvExecute env cfg oracleCollation partSyncTables waitSyncTables)"
  unfolding csvExecute_def
  by (intro keepsPlan_intros keepsPlan_csvWaitSyncTable keepsPlan_csvPartSyncTable assms)

text \<open>
  C4. Let the run have come through its preparation into the state \<open>w1\<close>, the metadata
  store answering. No call has been made to the source, and the check of the RUNNING
  tables leaves the store as it is. If a RUNNING table's stored chunk rows differ in
  number from its \<open>ChunkTotalNums\<close>, \<open>CSV\<close> returns the inconsistency error in that
  same state: no chunk has been executed. If every RUNNING table is consistent, the
  run goes on to the data phase with exactly the RUNNING tables as the tables to
  resume. And a RUNNING table that is not also among the WAITING tables is not planned
  again by the run: at the end of \<open>CSV\<close> its chunk rows are rows it had at the check,
  none new, and its table row has the snapshot and the chunk total it had.
\<close>

theorem csv_running_tables_checked:
  assumes prep: "csvPrepare env cfg w = (Inr prepared, w1)"
    and nofault: "metaFaults w1 = []"
  shows "sourceCalls w1 = sourceCalls w \<and>
         csvClassify cfg w1 =
           (Inr (map wTableNameS (filter (chunkCountConsistent (metaDB w1))
                    (QueryWaitSyncMetaByPartTask (schemaKey cfg) RUNNING (metaDB w1))),
                 map wTableNameS (filter (\<lambda>t. \<not> chunkCountConsistent (metaDB w1) t)
                    (QueryWaitSyncMetaByPartTask (schemaKey cfg) RUNNING (metaDB w1)))), w1) \<and>
         ((\<exists>t \<in> set (QueryWaitSyncMetaByPartTask (schemaKey cfg) RUNNING (metaDB w1)).
              CountsFullSyncMetaByTaskTable (runningKey t) (metaDB w1) \<noteq> wChunkTotalNums t) \<longrightarrow>
          CSV env cfg w = (Inl ChunkInconsistent, w1)) \<and>
         ((\<forall>t \<in> set (QueryWaitSyncMetaByPartTask (schemaKey cfg) RUNNING (metaDB w1)).
              CountsFullSyncMetaByTaskTable (runningKey t) (metaDB w1) = wChunkTotalNums t) \<longrightarrow>
          CSV env cfg w =
            csvExecute env cfg (fst (snd prepared))
              (map wTableNameS (QueryWaitSyncMetaByPartTask (schemaKey cfg) RUNNING (metaDB w1)))
              (snd (snd prepared)) w1) \<and>
         (\<forall>t \<in> set (QueryWaitSyncMetaByPartTask (schemaKey cfg) RUNNING (metaDB w1)).
            StringUPPER (wTableNameS t) \<notin> StringUPPER ` set (snd (snd prepared)) \<longrightarrow>
            planKept (runningKey t) (metaDB w1) (metaDB (snd (CSV env cfg w))))"
proof -
  let ?running = "QueryWaitSyncMetaByPartTask (schemaKey cfg) RUNNING (metaDB w1)"
  let ?bad = "\<exists>t \<in> set ?running.
                CountsFullSyncMetaByTaskTable (runningKey t) (metaDB w1) \<noteq> wChunkTotalNums t"
  have calls: "sourceCalls w1 = sourceCalls w"
    using sourceUntouched_csvPrepare [of env cfg] prep
    by (auto simp: sourceUntouched_def dest: spec [of _ w])
  have classify: "csvClassify cfg w1 =
           (Inr (map wTableNameS (filter (chunkCountConsistent (metaDB w1)) ?running),
                 map wTableNameS (filter (\<lambda>t. \<not> chunkCountConsistent (metaDB w1) t) ?running)), w1)"
    by (rule csvClassify_nofault [OF nofault])
  have abort: "CSV env cfg w = (Inl ChunkInconsistent, w1)" if ?bad
  proof -
    from that have "filter (\<lambda>t. \<not> chunkCountConsistent (metaDB w1) t) ?running \<noteq> []"
      by (auto simp: filter_empty_conv chunkCountConsistent_def)
    with prep show ?thesis
      by (simp add: CSV_def andThen_def Let_def classify raise_def)
  qed
  have resume: "CSV env cfg w =
            csvExecute env cfg (fst (snd prepared)) (map wTableNameS ?running) (snd (snd prepared)) w1"
    if "\<not> ?bad"
  proof -
    from that have "filter (\<lambda>t. \<not> chunkCountConsistent (metaDB w1) t) ?running = []"
      and "filter (chunkCountConsistent (metaDB w1)) ?running = ?running"
      by (auto simp: filter_empty_conv chunkCountConsistent_def filter_id_conv)
    with prep show ?thesis
      by (simp add: CSV_def andThen_def Let_def classify)
  qed
  have kept: "planKept (runningKey t) (metaDB w1) (metaDB (snd (CSV env cfg w)))"
    if t: "StringUPPER (wTableNameS t) \<notin> StringUPPER ` set (snd (snd prepared))" for t
  proof (cases ?bad)
    case True
    then show ?thesis by (simp add: abort planKept_refl)
  next
    case False
    have "keepsPlan (runningKey t)
            (csvExecute env cfg (fst (snd prepared)) (map wTableNameS ?running) (snd (snd prepared)))"
    proof (rule keepsPlan_csvExecute)
      fix u assume "u \<in> set (snd (snd prepared))"
      then have "StringUPPER u \<in> StringUPPER ` set (snd (snd prepared))"
        by (rule imageI)
      with t show "StringUPPER u \<noteq> StringUPPER (kTableNameS (runningKey t))"
        by (auto simp: runningKey_def)
    qed
    from keepsPlanD [OF this refl] show ?thesis by (simp add: resume [OF False])
  qed
  from calls classify abort resume kept show ?thesis by blast
qed

theorem csv_running_tables_checked_witness:
  "csvPrepare demoEnv demoCfg
       (demoWorld [demoTable ''T'' RUNNING 5]
          [demoChunk ''a'' SUCCESS, demoChunk ''b'' WAITING, demoChunk ''c'' WAITING])
     = (Inr ([''t''], True, []),
        demoWorld [demoTable ''T'' RUNNING 5]
          [demoChunk ''a'' SUCCESS, demoChunk ''b'' WAITING, demoChunk ''c'' WAITING]) \<and>
   CSV demoEnv demoCfg
       (demoWorld [demoTable ''T'' RUNNING 5]
          [demoChunk ''a'' SUCCESS, demoChunk ''b'' WAITING, demoChunk ''c'' WAITING])
     = (Inl ChunkInconsistent,
        demoWorld [demoTable ''T'' RUNNING 5]
          [demoChunk ''a'' SUCCESS, demoChunk ''b'' WAITING, demoChunk ''c'' WAITING]) \<and>
   csvPrepare demoEnv demoCfg
       (demoWorld [demoTable ''T'' RUNNING 3, demoTable ''U'' WAITING 0]
          [demoChunk ''a'' SUCCESS, demoChunk ''b'' WAITING, demoChunk ''c'' WAITING])
     = (Inr ([''t''], True, [''U'']),
        demoWorld [demoTable ''T'' RUNNING 3, demoTable ''U'' WAITING 0]
          [demoChunk ''a'' SUCCESS, demoChunk ''b'' WAITING, demoChunk ''c'' WAITING]) \<and>
   CSV demoEnv demoCfg
       (demoWorld [demoTable ''T'' RUNNING 3, demoTable ''U'' WAITING 0]
          [demoChunk ''a'' SUCCESS, demoChunk ''b'' WAITING, demoChunk ''c'' WAITING])
     = csvExecute demoEnv demoCfg True [''T''] [''U'']
        (demoWorld [demoTable ''T'' RUNNING 3, demoTable ''U'' WAITING 0]
          [demoChunk ''a'' SUCCESS, demoChunk ''b'' WAITING, demoChunk ''c'' WAITING]) \<and>
   planKept (runningKey (demoTable ''T'' RUNNING 3))
     (metaDB (demoWorld [demoTable ''T'' RUNNING 3, demoTable ''U'' WAITING 0]
          [demoChunk ''a'' SUCCESS, demoChunk ''b'' WAITING, demoChunk ''c'' WAITING]))
     (metaDB (snd (CSV demoEnv demoCfg
        (demoWorld [demoTable ''T'' RUNNING 3, demoTable ''U'' WAITING 0]
          [demoChunk ''a'' SUCCESS, demoChunk ''b'' WAITING, demoChunk ''c'' WAITING])))) \<and>
   map tablePlan (filter (tableMatchW (runningKey (demoTable ''T'' RUNNING 3)))
     (wait_sync_meta (metaDB (snd (CSV demoEnv demoCfg
        (demoWorld [demoTable ''T'' RUNNING 3, demoTable ''U'' WAITING 0]
          [demoChunk ''a'' SUCCESS, demoChunk ''b'' WAITING, demoChunk ''c'' WAITING]))))))
     = [(7, 3, ''NO'')]"
proof -
  let ?chunks = "[demoChunk ''a'' SUCCESS, demoChunk ''b'' WAITING, demoChunk ''c'' WAITING]"
  let ?w5 = "demoWorld [demoTable ''T'' RUNNING 5] ?chunks"
  let ?w3 = "demoWorld [demoTable ''T'' RUNNING 3, demoTable ''U'' WAITING 0] ?chunks"
  let ?T = "demoTable ''T'' RUNNING 3"
  have p5: "csvPrepare demoEnv demoCfg ?w5 = (Inr ([''t''], True, []), ?w5)"
    by (simp add: prepare_eval demo_eval meta_eval)
  have p3: "csvPrepare demoEnv demoCfg ?w3 = (Inr ([''t''], True, [''U'']), ?w3)"
    by (simp add: prepare_eval demo_eval meta_eval)
  have nf5: "metaFaults ?w5 = []" and nf3: "metaFaults ?w3 = []"
    by (simp_all add: demoWorld_def)
  have bad: "\<exists>t \<in> set (QueryWaitSyncMetaByPartTask (schemaKey demoCfg) RUNNING (metaDB ?w5)).
              CountsFullSyncMetaByTaskTable (runningKey t) (metaDB ?w5) \<noteq> wChunkTotalNums t"
    by (simp add: QueryWaitSyncMetaByPartTask_def CountsFullSyncMetaByTaskTable_def demo_eval meta_eval)
  have good: "\<forall>t \<in> set (QueryWaitSyncMetaByPartTask (schemaKey demoCfg) RUNNING (metaDB ?w3)).
              CountsFullSyncMetaByTaskTable (runningKey t) (metaDB ?w3) = wChunkTotalNums t"
    by (simp add: QueryWaitSyncMetaByPartTask_def CountsFullSyncMetaByTaskTable_def demo_eval meta_eval)
  have running: "QueryWaitSyncMetaByPartTask (schemaKey demoCfg) RUNNING (metaDB ?w3) = [?T]"
    by (simp add: QueryWaitSyncMetaByPartTask_def demo_eval meta_eval)
  have names: "map wTableNameS (QueryWaitSyncMetaByPartTask (schemaKey demoCfg) RUNNING (metaDB ?w3)) = [''T'']"
    by (simp add: running) (simp add: demoTable_def)
  have mem: "?T \<in> set (QueryWaitSyncMetaByPartTask (schemaKey demoCfg) RUNNING (metaDB ?w3))"
    by (simp add: running)
  have notwaiting: "StringUPPER (wTableNameS ?T) \<notin> StringUPPER ` set (snd (snd ([''t''], True, [''U''])))"
    by (simp add: demoTable_def StringUPPER_def ToUpper_def upperChar_def upperTable_def)
  note inst5 = csv_running_tables_checked [OF p5 nf5]
  note inst3 = csv_running_tables_checked [OF p3 nf3]
  from inst5 have "(\<exists>t \<in> set (QueryWaitSyncMetaByPartTask (schemaKey demoCfg) RUNNING (metaDB ?w5)).
              CountsFullSyncMetaByTaskTable (runningKey t) (metaDB ?w5) \<noteq> wChunkTotalNums t) \<longrightarrow>
          CSV demoEnv demoCfg ?w5 = (Inl ChunkInconsistent, ?w5)"
    by (rule conjunct1 [OF conjunct2 [OF conjunct2]])
  with bad have a: "CSV demoEnv demoCfg ?w5 = (Inl ChunkInconsistent, ?w5)" by (rule rev_mp)
  from inst3 have "(\<forall>t \<in> set (QueryWaitSyncMetaByPartTask (schemaKey demoCfg) RUNNING (metaDB ?w3)).
              CountsFullSyncMetaByTaskTable (runningKey t) (metaDB ?w3) = wChunkTotalNums t) \<longrightarrow>
          CSV demoEnv demoCfg ?w3 =
          csvExecute demoEnv demoCfg (fst (snd ([''t''], True, [''U''])))
            (map wTableNameS (QueryWaitSyncMetaByPartTask (schemaKey demoCfg) RUNNING (metaDB ?w3)))
            (snd (snd ([''t''], True, [''U'']))) ?w3"
    by (rule conjunct1 [OF conjunct2 [OF conjunct2 [OF conjunct2]]])
  with good have "CSV demoEnv demoCfg ?w3 =
          csvExecute demoEnv demoCfg (fst (snd ([''t''], True, [''U''])))
            (map wTableNameS (QueryWaitSyncMetaByPartTask (schemaKey demoCfg) RUNNING (metaDB ?w3)))
            (snd (snd ([''t''], True, [''U'']))) ?w3"
    by (rule rev_mp)
  then have b: "CSV demoEnv demoCfg ?w3 = csvExecute demoEnv demoCfg True [''T''] [''U''] ?w3"
    by (simp only: names fst_conv snd_conv)
  from inst3 have "\<forall>t \<in> set (QueryWaitSyncMetaByPartTask (schemaKey demoCfg) RUNNING (metaDB ?w3)).
            StringUPPER (wTableNameS t) \<notin> StringUPPER ` set (snd (snd ([''t''], True, [''U'']))) \<longrightarrow>
            planKept (runningKey t) (metaDB ?w3) (metaDB (snd (CSV demoEnv demoCfg ?w3)))"
    by (rule conjunct2 [OF conjunct2 [OF conjunct2 [OF conjunct2]]])
  with mem notwaiting
  have c: "planKept (runningKey ?T) (metaDB ?w3) (metaDB (snd (CSV demoEnv demoCfg ?w3)))"
    by blast
  have "map tablePlan (filter (tableMatchW (runningKey ?T)) (wait_sync_meta (metaDB ?w3))) = [(7, 3, ''NO'')]"
    by (simp add: tablePlan_def demo_eval meta_eval)
  with c have d: "map tablePlan (filter (tableMatchW (runningKey ?T))
     (wait_sync_meta (metaDB (snd (CSV demoEnv demoCfg ?w3))))) = [(7, 3, ''NO'')]"
    by (simp only: planKept_def)
  from p5 a p3 b c d show ?thesis by (intro conjI)
qed

end
